theory Spec2Isabelle
  imports Main
begin

section \<open>Errors, results and tool responses\<close>

text \<open>
  The backend is TypeScript. A thrown exception is a value of type \<open>error\<close>: either the
  \<open>ZodError\<close> raised by \<open>schema.parse\<close>, or an \<open>Error\<close> with its message (errors raised by
  the PostgreSQL driver are \<open>Error\<close>s as well).
\<close>

datatype error = ZodError | Error string

fun error_message :: "error \<Rightarrow> string" where
  "error_message ZodError = ''Invalid input''"
| "error_message (Error msg) = msg"

text \<open>The handlers of the watchlist and watched tools return \<open>{ success, message }\<close>.\<close>

record result =
  success :: bool
  message :: string

text \<open>
  \<open>MCPToolResponse\<close>: \<open>ToolResult r\<close> is the response with \<open>isError: false\<close> and structured
  content \<open>r\<close>; \<open>ToolError t\<close> is the response with \<open>isError: true\<close> and text \<open>t\<close>.
\<close>

datatype 'r tool_response = ToolResult 'r | ToolError string

fun isError :: "'r tool_response \<Rightarrow> bool" where
  "isError (ToolResult r) = False"
| "isError (ToolError t) = True"

definition quoted :: "string \<Rightarrow> string" where
  "quoted s = CHR 0x22 # s @ [CHR 0x22]"

text \<open>
  \<open>withToolHandler\<close> (tool-helpers.ts): validate the input with the schema, run the handler,
  and turn every exception into an error response whose text is the prefix, a colon and the
  message. The schema is the predicate that \<open>schema.parse\<close> accepts; the state \<open>'s\<close> is
  whatever the handler reads and writes.
\<close>

definition withToolHandler ::
  "('i \<Rightarrow> bool) \<Rightarrow> ('i \<Rightarrow> int \<Rightarrow> 's \<Rightarrow> (error + 'r) \<times> 's) \<Rightarrow> string
     \<Rightarrow> 'i \<Rightarrow> int \<Rightarrow> 's \<Rightarrow> 'r tool_response \<times> 's" where
  "withToolHandler schema handler errorMessagePrefix input userId s =
     (if \<not> schema input
      then (ToolError (errorMessagePrefix @ '': '' @ error_message ZodError), s)
      else (case handler input userId s of
              (Inr r, s') \<Rightarrow> (ToolResult r, s')
            | (Inl e, s') \<Rightarrow> (ToolError (errorMessagePrefix @ '': '' @ error_message e), s')))"

section \<open>JSON values\<close>

text \<open>
  Preference values are JSON (\<open>z.any()\<close> on the way in, a \<open>JSONB\<close> column in the store).
  Numbers are integers here. An object is the list of its properties, with distinct keys
  and in the order the \<open>JSONB\<close> column keeps them, so that \<open>JSON.stringify\<close> followed by the
  cast \<open>$3::jsonb\<close> gives the value back.
\<close>

datatype json =
    JNull
  | JBool bool
  | JNumber int
  | JString string
  | JArray "json list"
  | JObject "(string \<times> json) list"

text \<open>\<open>Array.isArray(v)\<close>\<close>

fun isArray :: "json \<Rightarrow> bool" where
  "isArray (JArray xs) = True"
| "isArray v = False"

text \<open>The elements of an array (used only after \<open>Array.isArray\<close> has answered).\<close>

fun elements :: "json \<Rightarrow> json list" where
  "elements (JArray xs) = xs"
| "elements v = []"

text \<open>
  \<open>String(n)\<close> for an integer \<open>n\<close>: its decimal digits, least significant digit first
  onto an accumulator, with a minus sign for a negative number.
\<close>

fun digits :: "nat \<Rightarrow> string \<Rightarrow> string" where
  "digits n acc =
     (if n < 10 then (''0123456789'' ! n) # acc
      else digits (n div 10) ((''0123456789'' ! (n mod 10)) # acc))"

definition number_to_string :: "int \<Rightarrow> string" where
  "number_to_string i =
     (if 0 \<le> i then digits (nat i) [] else CHR ''-'' # digits (nat (- i)) [])"

text \<open>\<open>Array.prototype.join(',')\<close> on strings.\<close>

fun join_comma :: "string list \<Rightarrow> string" where
  "join_comma [] = []"
| "join_comma [x] = x"
| "join_comma (x # y # ys) = x @ '','' @ join_comma (y # ys)"

text \<open>
  JavaScript's \<open>String(v)\<close> on a JSON value: an array prints its elements joined by commas,
  with \<open>null\<close> elements printed as the empty string; every object prints as
  \<open>[object Object]\<close>.
\<close>

fun String :: "json \<Rightarrow> string" where
  "String JNull = ''null''"
| "String (JBool b) = (if b then ''true'' else ''false'')"
| "String (JNumber n) = number_to_string n"
| "String (JString s) = s"
| "String (JArray xs) = join_comma (map (\<lambda>x. if x = JNull then [] else String x) xs)"
| "String (JObject kvs) = ''[object Object]''"

text \<open>\<open>typeof v === 'object' && v !== null && 'name' in v\<close>\<close>

fun has_name :: "json \<Rightarrow> bool" where
  "has_name (JObject kvs) = (map_of kvs ''name'' \<noteq> None)"
| "has_name v = False"

text \<open>\<open>v.name\<close>, read only where \<open>has_name v\<close> holds.\<close>

fun get_name :: "json \<Rightarrow> json" where
  "get_name (JObject kvs) = (case map_of kvs ''name'' of Some n \<Rightarrow> n | None \<Rightarrow> JNull)"
| "get_name v = JNull"

text \<open>\<open>normalizePersonName\<close> and \<open>normalizePersonNames\<close> (utils/person-enrichment.ts).\<close>

definition normalizePersonName :: "json \<Rightarrow> string" where
  "normalizePersonName item =
     (case item of
        JString s \<Rightarrow> s
      | _ \<Rightarrow>
         if has_name item
         then (let nameValue = (if has_name (get_name item)
                                then get_name (get_name item)
                                else get_name item)
               in String nameValue)
         else String item)"

definition normalizePersonNames :: "json list \<Rightarrow> string list" where
  "normalizePersonNames people = map normalizePersonName people"

section \<open>The relational store\<close>

text \<open>
  The tables of schema.sql that the operations touch, each a list of rows. Only the columns
  the operations read are kept (timestamps, overview, poster and the serial row ids of
  \<open>watchlist\<close>, \<open>watched\<close> and \<open>preferences\<close> are left out). \<open>movies_id_seq\<close> is the sequence
  behind \<open>movies.id SERIAL\<close>. The rows of \<open>preferences\<close> are kept most recently updated
  first, which is the order \<open>ORDER BY updated_at DESC\<close> reads them in: every write of a row
  sets \<open>updated_at = NOW()\<close> and so moves it to the front (rows written by one transaction
  share their timestamp; the model lists the later statement first).
\<close>

record movies_row =
  m_id :: nat
  m_tmdb_id :: int
  m_title :: string

record watchlist_row =
  wl_user_id :: int
  wl_movie_id :: nat
  wl_notes :: "string option"

record watched_row =
  wd_user_id :: int
  wd_movie_id :: nat
  wd_rating :: int
  wd_notes :: "string option"

record preferences_row =
  p_user_id :: int
  p_key :: string
  p_value :: json

record db =
  movies :: "movies_row list"
  movies_id_seq :: nat
  watchlist :: "watchlist_row list"
  watched :: "watched_row list"
  preferences :: "preferences_row list"

definition empty_db :: db where
  "empty_db =
     \<lparr> movies = [], movies_id_seq = 1, watchlist = [], watched = [], preferences = [] \<rparr>"

text \<open>
  \<open>transaction\<close> (db/client.ts): \<open>BEGIN\<close>, run the callback, \<open>COMMIT\<close>; if the callback throws,
  \<open>ROLLBACK\<close> and rethrow. The callback returns the state it has reached together with its
  result or its exception, so the rollback is an action of the model: it restores every
  table. A PostgreSQL sequence is not transactional, so the sequence keeps the value the
  callback left.
\<close>

definition transaction :: "(db \<Rightarrow> (error + 'a) \<times> db) \<Rightarrow> db \<Rightarrow> (error + 'a) \<times> db" where
  "transaction callback s =
     (case callback s of
        (Inr r, s') \<Rightarrow> (Inr r, s')
      | (Inl e, s') \<Rightarrow> (Inl e, s\<lparr> movies_id_seq := movies_id_seq s' \<rparr>))"

subsection \<open>The external providers\<close>

text \<open>
  \<open>getMovieDetails\<close> (utils/tmdb.ts) asks TMDB, through a cache of its own that the model
  leaves out; it is a parameter of the model. It returns the details or throws an \<open>Error\<close>,
  given here by its message. \<open>md_release_date\<close> is the release date as a point in time
  (absent when TMDB has none), and \<open>now\<close> is the clock read by \<open>new Date()\<close>.
\<close>

record movie_details =
  md_tmdb_id :: int
  md_title :: string
  md_release_date :: "nat option"

text \<open>
  \<open>searchPeople\<close> (utils/tmdb.ts) is the person lookup used to decorate names on the read
  path; it returns the matches, most popular first, or throws.
\<close>

record person_result =
  person_id :: int
  person_profile_url :: "string option"

record environment =
  getMovieDetails :: "int \<Rightarrow> string + movie_details"
  now :: nat
  searchPeople :: "string \<Rightarrow> string + person_result list"

subsection \<open>Statements\<close>

text \<open>\<open>SELECT id, title FROM movies WHERE tmdb_id = $1\<close>\<close>

definition select_movie :: "int \<Rightarrow> db \<Rightarrow> movies_row list" where
  "select_movie t s = filter (\<lambda>r. m_tmdb_id r = t) (movies s)"

text \<open>
  \<open>INSERT INTO movies (...) VALUES (...) RETURNING id\<close>. The id is the next value of the
  sequence; \<open>tmdb_id\<close> is \<open>UNIQUE\<close>.
\<close>

definition insert_movie :: "movie_details \<Rightarrow> db \<Rightarrow> (error + nat) \<times> db" where
  "insert_movie md s =
     (let new_id = movies_id_seq s;
          s1 = s\<lparr> movies_id_seq := new_id + 1 \<rparr>
      in if select_movie (md_tmdb_id md) s \<noteq> []
         then (Inl (Error ''duplicate key value violates unique constraint movies_tmdb_id_key''), s1)
         else (Inr new_id,
               s1\<lparr> movies := movies s1 @
                  [\<lparr> m_id = new_id, m_tmdb_id = md_tmdb_id md, m_title = md_title md \<rparr>] \<rparr>))"

text \<open>\<open>SELECT id FROM watchlist WHERE user_id = $1 AND movie_id = $2\<close>, non-empty.\<close>

definition isInWatchlist :: "int \<Rightarrow> nat \<Rightarrow> db \<Rightarrow> bool" where
  "isInWatchlist userId movieId s =
     (filter (\<lambda>r. wl_user_id r = userId \<and> wl_movie_id r = movieId) (watchlist s) \<noteq> [])"

text \<open>\<open>SELECT id FROM watched WHERE user_id = $1 AND movie_id = $2\<close>, non-empty.\<close>

definition isWatched :: "int \<Rightarrow> nat \<Rightarrow> db \<Rightarrow> bool" where
  "isWatched userId movieId s =
     (filter (\<lambda>r. wd_user_id r = userId \<and> wd_movie_id r = movieId) (watched s) \<noteq> [])"

text \<open>\<open>input.notes || null\<close>: a missing or empty note is stored as \<open>NULL\<close>.\<close>

fun or_null :: "string option \<Rightarrow> string option" where
  "or_null None = None"
| "or_null (Some n) = (if n = [] then None else Some n)"

text \<open>\<open>INSERT INTO watchlist (user_id, movie_id, notes)\<close>, with \<open>UNIQUE(user_id, movie_id)\<close>.\<close>

definition insert_watchlist :: "int \<Rightarrow> nat \<Rightarrow> string option \<Rightarrow> db \<Rightarrow> (error + unit) \<times> db" where
  "insert_watchlist userId movieId n s =
     (if isInWatchlist userId movieId s
      then (Inl (Error ''duplicate key value violates unique constraint watchlist_user_id_movie_id_key''), s)
      else (Inr (),
            s\<lparr> watchlist := watchlist s @
               [\<lparr> wl_user_id = userId, wl_movie_id = movieId, wl_notes = n \<rparr>] \<rparr>))"

text \<open>
  \<open>DELETE FROM watchlist WHERE user_id = $1 AND movie_id = $2\<close>; the number returned is the
  row count (the number of rows of \<open>RETURNING id\<close>).
\<close>

definition delete_watchlist :: "int \<Rightarrow> nat \<Rightarrow> db \<Rightarrow> nat \<times> db" where
  "delete_watchlist userId movieId s =
     (length (filter (\<lambda>r. wl_user_id r = userId \<and> wl_movie_id r = movieId) (watchlist s)),
      s\<lparr> watchlist := filter (\<lambda>r. \<not> (wl_user_id r = userId \<and> wl_movie_id r = movieId)) (watchlist s) \<rparr>)"

text \<open>
  \<open>INSERT INTO watched (user_id, movie_id, rating, notes)\<close>, with
  \<open>CHECK (rating BETWEEN 1 AND 5)\<close> and \<open>UNIQUE(user_id, movie_id)\<close>.
\<close>

definition insert_watched :: "int \<Rightarrow> nat \<Rightarrow> int \<Rightarrow> string option \<Rightarrow> db \<Rightarrow> (error + unit) \<times> db" where
  "insert_watched userId movieId r n s =
     (if \<not> (1 \<le> r \<and> r \<le> 5)
      then (Inl (Error ''new row for relation watched violates check constraint watched_rating_check''), s)
      else if isWatched userId movieId s
      then (Inl (Error ''duplicate key value violates unique constraint watched_user_id_movie_id_key''), s)
      else (Inr (),
            s\<lparr> watched := watched s @
               [\<lparr> wd_user_id = userId, wd_movie_id = movieId, wd_rating = r, wd_notes = n \<rparr>] \<rparr>))"

text \<open>
  \<open>UPDATE watched SET rating = $1, notes = $2, watched_at = NOW() WHERE user_id = $3 AND
  movie_id = $4\<close>, under the same check constraint.
\<close>

definition update_watched :: "int \<Rightarrow> nat \<Rightarrow> int \<Rightarrow> string option \<Rightarrow> db \<Rightarrow> (error + unit) \<times> db" where
  "update_watched userId movieId r n s =
     (if isWatched userId movieId s \<and> \<not> (1 \<le> r \<and> r \<le> 5)
      then (Inl (Error ''new row for relation watched violates check constraint watched_rating_check''), s)
      else (Inr (),
            s\<lparr> watched := map (\<lambda>row. if wd_user_id row = userId \<and> wd_movie_id row = movieId
                                      then row\<lparr> wd_rating := r, wd_notes := n \<rparr> else row)
                               (watched s) \<rparr>))"

section \<open>Watchlist tools\<close>

record AddToWatchlistInput =
  a_tmdb_id :: int
  a_notes :: "string option"

text \<open>\<open>AddToWatchlistSchema\<close>: \<open>tmdb_id\<close> a positive integer, \<open>notes\<close> an optional string.\<close>

definition AddToWatchlistSchema :: "AddToWatchlistInput \<Rightarrow> bool" where
  "AddToWatchlistSchema input = (0 < a_tmdb_id input)"

text \<open>\<open>ensureMovieExists\<close> (db/utilities.ts).\<close>

definition ensureMovieExists :: "environment \<Rightarrow> int \<Rightarrow> db \<Rightarrow> (error + nat) \<times> db" where
  "ensureMovieExists env t s =
     (case select_movie t s of
        row # rest \<Rightarrow> (Inr (m_id row), s)
      | [] \<Rightarrow>
         (case getMovieDetails env t of
            Inl msg \<Rightarrow> (Inl (Error msg), s)
          | Inr movieDetails \<Rightarrow> insert_movie movieDetails s))"

definition handleAddToWatchlist ::
  "environment \<Rightarrow> AddToWatchlistInput \<Rightarrow> int \<Rightarrow> db \<Rightarrow> (error + result) \<times> db" where
  "handleAddToWatchlist env input userId s =
     (case ensureMovieExists env (a_tmdb_id input) s of
        (Inl e, s1) \<Rightarrow> (Inl e, s1)
      | (Inr movieId, s1) \<Rightarrow>
          if isInWatchlist userId movieId s1
          then (Inr \<lparr> success = False, message = ''Movie is already in your watchlist'' \<rparr>, s1)
          else (case insert_watchlist userId movieId (or_null (a_notes input)) s1 of
                  (Inl e, s2) \<Rightarrow> (Inl e, s2)
                | (Inr u, s2) \<Rightarrow>
                    (Inr \<lparr> success = True, message = ''Movie added to watchlist successfully'' \<rparr>, s2)))"

definition addToWatchlist ::
  "environment \<Rightarrow> AddToWatchlistInput \<Rightarrow> int \<Rightarrow> db \<Rightarrow> result tool_response \<times> db" where
  "addToWatchlist env =
     withToolHandler AddToWatchlistSchema
       (\<lambda>validatedInput userId. transaction (handleAddToWatchlist env validatedInput userId))
       ''Failed to add to watchlist''"

record RemoveFromWatchlistInput =
  r_tmdb_id :: int

definition RemoveFromWatchlistSchema :: "RemoveFromWatchlistInput \<Rightarrow> bool" where
  "RemoveFromWatchlistSchema input = (0 < r_tmdb_id input)"

text \<open>
  The handler of \<open>removeFromWatchlist\<close>. It uses \<open>query\<close>, not \<open>transaction\<close>: each statement
  commits on its own.
\<close>

definition handleRemoveFromWatchlist ::
  "RemoveFromWatchlistInput \<Rightarrow> int \<Rightarrow> db \<Rightarrow> (error + result) \<times> db" where
  "handleRemoveFromWatchlist validatedInput userId s =
     (case select_movie (r_tmdb_id validatedInput) s of
        [] \<Rightarrow> (Inl (Error ''Movie not found in database''), s)
      | row # rest \<Rightarrow>
          (let movieId = m_id row;
               movieTitle = m_title row;
               (deleted, s1) = delete_watchlist userId movieId s
           in if deleted = 0
              then (Inr \<lparr> success = False,
                          message = quoted movieTitle @ '' was not in your watchlist.'' \<rparr>, s1)
              else (Inr \<lparr> success = True,
                          message = ''Removed '' @ quoted movieTitle @ '' from your watchlist.'' \<rparr>, s1)))"

definition removeFromWatchlist ::
  "RemoveFromWatchlistInput \<Rightarrow> int \<Rightarrow> db \<Rightarrow> result tool_response \<times> db" where
  "removeFromWatchlist =
     withToolHandler RemoveFromWatchlistSchema handleRemoveFromWatchlist
       ''Failed to remove from watchlist''"

section \<open>Watched tools\<close>

record MarkAsWatchedInput =
  w_tmdb_id :: int
  w_rating :: int
  w_notes :: "string option"

text \<open>\<open>MarkAsWatchedSchema\<close>: \<open>tmdb_id\<close> a positive integer, \<open>rating\<close> an integer from 1 to 5.\<close>

definition MarkAsWatchedSchema :: "MarkAsWatchedInput \<Rightarrow> bool" where
  "MarkAsWatchedSchema input = (0 < w_tmdb_id input \<and> 1 \<le> w_rating input \<and> w_rating input \<le> 5)"

text \<open>
  \<open>handleMarkAsWatched\<close> (tools/watched.ts), statement by statement: the release-date gate,
  the check-then-insert of the movie, then the update branch, which returns at once, and
  otherwise the insert followed by the deletion from the watchlist. (The message of the
  release-date gate leaves out the formatted date.)
\<close>

definition not_released_message :: "string \<Rightarrow> string" where
  "not_released_message t =
     quoted t @ '' hasn't been released yet. You can add it to your watchlist instead.''"

definition handleMarkAsWatched ::
  "environment \<Rightarrow> MarkAsWatchedInput \<Rightarrow> int \<Rightarrow> db \<Rightarrow> (error + result) \<times> db" where
  "handleMarkAsWatched env input userId s =
     (case getMovieDetails env (w_tmdb_id input) of
        Inl msg \<Rightarrow> (Inl (Error msg), s)
      | Inr movieDetails \<Rightarrow>
          if (case md_release_date movieDetails of
                Some releaseDate \<Rightarrow> releaseDate > now env
              | None \<Rightarrow> False)
          then (Inl (Error (not_released_message (md_title movieDetails))), s)
          else
           (case (case select_movie (w_tmdb_id input) s of
                    row # rest \<Rightarrow> (Inr (m_id row), s)
                  | [] \<Rightarrow> insert_movie movieDetails s) of
              (Inl e, s1) \<Rightarrow> (Inl e, s1)
            | (Inr movieId, s1) \<Rightarrow>
                if isWatched userId movieId s1
                then (case update_watched userId movieId (w_rating input)
                             (or_null (w_notes input)) s1 of
                        (Inl e, s2) \<Rightarrow> (Inl e, s2)
                      | (Inr u, s2) \<Rightarrow>
                          (Inr \<lparr> success = True,
                                 message = ''Updated watch record with new rating.'' \<rparr>, s2))
                else (case insert_watched userId movieId (w_rating input)
                             (or_null (w_notes input)) s1 of
                        (Inl e, s2) \<Rightarrow> (Inl e, s2)
                      | (Inr u, s2) \<Rightarrow>
                          (let (deleted, s3) = delete_watchlist userId movieId s2;
                               removedFromWatchlist = (deleted > 0)
                           in (Inr \<lparr> success = True,
                                      message =
                                        (if removedFromWatchlist
                                         then ''Movie marked as watched and removed from watchlist.''
                                         else ''Movie marked as watched.'') \<rparr>, s3)))))"

text \<open>The \<open>mark_as_watched\<close> tool: \<open>!userId\<close> holds for a missing or zero user id.\<close>

definition markAsWatched ::
  "environment \<Rightarrow> MarkAsWatchedInput \<Rightarrow> int \<Rightarrow> db \<Rightarrow> result tool_response \<times> db" where
  "markAsWatched env =
     withToolHandler MarkAsWatchedSchema
       (\<lambda>validatedInput userId s.
          if userId = 0 then (Inl (Error ''User ID is required''), s)
          else transaction (handleMarkAsWatched env validatedInput userId) s)
       ''Failed to mark movie as watched''"

subsection \<open>The batch tool\<close>

record MarkAsWatchedBatchInput =
  b_entries :: "MarkAsWatchedInput list"
  b_transaction :: "bool option"

text \<open>
  \<open>MarkAsWatchedBatchSchema\<close>: at least one entry, every entry accepted by
  \<open>MarkAsWatchedSchema\<close>; \<open>transaction\<close> defaults to \<open>true\<close>.
\<close>

definition MarkAsWatchedBatchSchema :: "MarkAsWatchedBatchInput \<Rightarrow> bool" where
  "MarkAsWatchedBatchSchema input =
     (b_entries input \<noteq> [] \<and> list_all MarkAsWatchedSchema (b_entries input))"

definition validated_transaction :: "MarkAsWatchedBatchInput \<Rightarrow> bool" where
  "validated_transaction input = (case b_transaction input of None \<Rightarrow> True | Some b \<Rightarrow> b)"

record batch_item =
  bi_tmdb_id :: int
  bi_success :: bool
  bi_message :: string

text \<open>The structured content of the batch response.\<close>

record batch_response =
  batch_success :: bool
  batch_results :: "batch_item list"

text \<open>
  The loop of the best-effort path: one transaction per entry, the exception of an entry
  caught and its message recorded (every exception of \<open>handleMarkAsWatched\<close> is an
  \<open>Error\<close>).
\<close>

fun best_effort_loop ::
  "environment \<Rightarrow> int \<Rightarrow> MarkAsWatchedInput list \<Rightarrow> batch_item list \<Rightarrow> db
     \<Rightarrow> batch_item list \<times> db" where
  "best_effort_loop env userId [] results s = (results, s)"
| "best_effort_loop env userId (entry # rest) results s =
     (case transaction (handleMarkAsWatched env entry userId) s of
        (Inr r, s') \<Rightarrow>
          best_effort_loop env userId rest
            (results @ [\<lparr> bi_tmdb_id = w_tmdb_id entry, bi_success = success r,
                           bi_message = message r \<rparr>]) s'
      | (Inl e, s') \<Rightarrow>
          best_effort_loop env userId rest
            (results @ [\<lparr> bi_tmdb_id = w_tmdb_id entry, bi_success = False,
                           bi_message = error_message e \<rparr>]) s')"

text \<open>The loop of the transactional path: the first exception leaves the loop.\<close>

fun transactional_loop ::
  "environment \<Rightarrow> int \<Rightarrow> MarkAsWatchedInput list \<Rightarrow> batch_item list \<Rightarrow> db
     \<Rightarrow> (error + batch_item list) \<times> db" where
  "transactional_loop env userId [] batchResults s = (Inr batchResults, s)"
| "transactional_loop env userId (entry # rest) batchResults s =
     (case handleMarkAsWatched env entry userId s of
        (Inl e, s') \<Rightarrow> (Inl e, s')
      | (Inr r, s') \<Rightarrow>
          transactional_loop env userId rest
            (batchResults @ [\<lparr> bi_tmdb_id = w_tmdb_id entry, bi_success = success r,
                                bi_message = message r \<rparr>]) s')"

text \<open>
  \<open>markAsWatchedBatch\<close> is not wrapped by \<open>withToolHandler\<close>: what it throws reaches its
  caller (\<open>callTool\<close>, which answers with an error response).
\<close>

definition markAsWatchedBatch ::
  "environment \<Rightarrow> MarkAsWatchedBatchInput \<Rightarrow> int \<Rightarrow> db \<Rightarrow> (error + batch_response) \<times> db" where
  "markAsWatchedBatch env input userId s =
     (if \<not> MarkAsWatchedBatchSchema input then (Inl ZodError, s)
      else if \<not> validated_transaction input
      then (let (results, s') = best_effort_loop env userId (b_entries input) [] s
            in (Inr \<lparr> batch_success = list_all bi_success results,
                       batch_results = results \<rparr>, s'))
      else (case transaction (transactional_loop env userId (b_entries input) []) s of
              (Inl e, s') \<Rightarrow> (Inl e, s')
            | (Inr results, s') \<Rightarrow>
                (Inr \<lparr> batch_success = True, batch_results = results \<rparr>, s')))"

section \<open>Preference tools\<close>

subsection \<open>Statements on the preferences table\<close>

text \<open>\<open>SELECT value FROM preferences WHERE user_id = $1 AND key = $2\<close>\<close>

definition select_preference :: "int \<Rightarrow> string \<Rightarrow> db \<Rightarrow> preferences_row list" where
  "select_preference userId k s =
     filter (\<lambda>r. p_user_id r = userId \<and> p_key r = k) (preferences s)"

text \<open>
  \<open>SELECT key, value, updated_at FROM preferences WHERE user_id = $1 ORDER BY updated_at
  DESC\<close>
\<close>

definition select_preferences :: "int \<Rightarrow> db \<Rightarrow> preferences_row list" where
  "select_preferences userId s = filter (\<lambda>r. p_user_id r = userId) (preferences s)"

text \<open>
  \<open>INSERT INTO preferences ... ON CONFLICT (user_id, key) DO UPDATE SET value = $3::jsonb,
  updated_at = NOW()\<close>
\<close>

definition upsert_preference :: "int \<Rightarrow> string \<Rightarrow> json \<Rightarrow> db \<Rightarrow> db" where
  "upsert_preference userId k v s =
     s\<lparr> preferences :=
          \<lparr> p_user_id = userId, p_key = k, p_value = v \<rparr> #
          filter (\<lambda>r. \<not> (p_user_id r = userId \<and> p_key r = k)) (preferences s) \<rparr>"

text \<open>
  \<open>UPDATE preferences SET value = $1::jsonb, updated_at = NOW() WHERE user_id = $2 AND
  key = $3\<close>
\<close>

definition update_preference :: "int \<Rightarrow> string \<Rightarrow> json \<Rightarrow> db \<Rightarrow> db" where
  "update_preference userId k v s =
     (if select_preference userId k s = [] then s else upsert_preference userId k v s)"

text \<open>\<open>DELETE FROM preferences WHERE user_id = $1 AND key = $2\<close>\<close>

definition delete_preference :: "int \<Rightarrow> string \<Rightarrow> db \<Rightarrow> db" where
  "delete_preference userId k s =
     s\<lparr> preferences :=
          filter (\<lambda>r. \<not> (p_user_id r = userId \<and> p_key r = k)) (preferences s) \<rparr>"

subsection \<open>The cache\<close>

text \<open>
  The structured content of the \<open>get_preferences\<close> response, which is what the cache holds
  under the user's key (the text content and the widget metadata are left out).
\<close>

record preferences_response =
  pr_preferences :: "(string \<times> json) list"
  pr_count :: nat
  pr_message :: string

text \<open>
  The process and its collaborators: the store and the Redis cache (cache/redis.ts).
  \<open>redis = None\<close> is a process without \<open>REDIS_URL\<close>, where every cache call is a no-op.
  A Redis command can throw (the connection is lost, the retries are used up): \<open>faults\<close>
  lists, for the commands that the process will send for the preference keys, whether each
  of them throws, in the order in which they are sent; once the list is used up the
  commands go through. A command that throws has no effect on the entries. Entries do not
  expire in the model (the code gives them a TTL of 300 seconds).
\<close>

record system =
  store :: db
  redis :: "(string \<times> preferences_response) list option"
  faults :: "bool list"

text \<open>Whether the command sent next throws, and the process after a command was sent.\<close>

definition command_throws :: "system \<Rightarrow> bool" where
  "command_throws sys = (case faults sys of [] \<Rightarrow> False | fault # later \<Rightarrow> fault)"

definition command_sent :: "system \<Rightarrow> system" where
  "command_sent sys = sys\<lparr> faults := tl (faults sys) \<rparr>"

text \<open>
  \<open>getCached\<close>: \<open>null\<close> without a client, \<open>null\<close> when \<open>client.get\<close> throws (the \<open>catch\<close> logs
  and returns \<open>null\<close>), otherwise the entry of the key, if there is one.
\<close>

definition getCached :: "string \<Rightarrow> system \<Rightarrow> preferences_response option \<times> system" where
  "getCached k sys =
     (case redis sys of
        None \<Rightarrow> (None, sys)
      | Some entries \<Rightarrow>
          if command_throws sys then (None, command_sent sys)
          else (map_of entries k, command_sent sys))"

text \<open>
  \<open>setCached\<close>: nothing without a client; when \<open>client.setex\<close> throws, the \<open>catch\<close> logs and
  the entries stay as they were.
\<close>

definition setCached :: "string \<Rightarrow> preferences_response \<Rightarrow> nat \<Rightarrow> system \<Rightarrow> system" where
  "setCached k v ttlSeconds sys =
     (case redis sys of
        None \<Rightarrow> sys
      | Some entries \<Rightarrow>
          if command_throws sys then command_sent sys
          else (command_sent sys)\<lparr> redis := Some ((k, v) # filter (\<lambda>e. fst e \<noteq> k) entries) \<rparr>)"

text \<open>
  \<open>deleteCached\<close>: nothing without a client; when \<open>client.del\<close> throws, the \<open>catch\<close> logs,
  nothing is rethrown and the entry of the key stays.
\<close>

definition deleteCached :: "string \<Rightarrow> system \<Rightarrow> system" where
  "deleteCached k sys =
     (case redis sys of
        None \<Rightarrow> sys
      | Some entries \<Rightarrow>
          if command_throws sys then command_sent sys
          else (command_sent sys)\<lparr> redis := Some (filter (\<lambda>e. fst e \<noteq> k) entries) \<rparr>)"

text \<open>The cache key \<open>user:${userId}:preferences\<close>.\<close>

definition cacheKey :: "int \<Rightarrow> string" where
  "cacheKey userId = ''user:'' @ number_to_string userId @ '':preferences''"

subsection \<open>Reading preferences\<close>

text \<open>
  \<open>enrichPersonNames\<close> (utils/person-enrichment.ts): each name becomes an object with the
  name, the profile picture and the id of the first match; a failed or empty lookup gives
  the fallback object.
\<close>

definition enrichPersonNames :: "environment \<Rightarrow> string list \<Rightarrow> json list" where
  "enrichPersonNames env names =
     map (\<lambda>name.
            case searchPeople env name of
              Inr (person # others) \<Rightarrow>
                JObject [(''name'', JString name),
                         (''profile_url'',
                            (case person_profile_url person of
                               Some url \<Rightarrow> JString url | None \<Rightarrow> JNull)),
                         (''id'', JNumber (person_id person))]
            | _ \<Rightarrow>
                JObject [(''name'', JString name), (''profile_url'', JNull),
                         (''id'', JNumber 0)])
         names"

text \<open>
  What \<open>getPreferences\<close> computes on a cache miss: the user's rows, most recently updated
  first, the two person lists decorated.
\<close>

definition readPreferences :: "environment \<Rightarrow> int \<Rightarrow> db \<Rightarrow> preferences_response" where
  "readPreferences env userId s =
     (let rows = select_preferences userId s;
          enrichedPreferences =
            map (\<lambda>row.
                   (p_key row,
                    if (p_key row = ''favorite_actors'' \<or> p_key row = ''favorite_directors'')
                       \<and> isArray (p_value row)
                    then JArray (enrichPersonNames env
                                   (normalizePersonNames (elements (p_value row))))
                    else p_value row))
                rows;
          summaryMessage =
            (if length enrichedPreferences > 0
             then ''Retrieved '' @ number_to_string (int (length enrichedPreferences))
                    @ '' preference(s).''
             else ''No preferences saved yet. Use set_preference to add some.'')
      in \<lparr> pr_preferences = enrichedPreferences,
           pr_count = length enrichedPreferences,
           pr_message = summaryMessage \<rparr>)"

text \<open>
  \<open>getPreferences\<close> (tools/preferences.ts): the cached response if there is one, otherwise
  the response read from the store, cached for 300 seconds. (Its \<open>catch\<close> branch answers a
  failed query; the statements of the model do not fail.)
\<close>

definition getPreferences ::
  "environment \<Rightarrow> int \<Rightarrow> system \<Rightarrow> preferences_response \<times> system" where
  "getPreferences env userId sys =
     (case getCached (cacheKey userId) sys of
        (Some cached, sys1) \<Rightarrow> (cached, sys1)
      | (None, sys1) \<Rightarrow>
          (let response = readPreferences env userId (store sys1)
           in (response, setCached (cacheKey userId) response 300 sys1)))"

subsection \<open>Setting preferences\<close>

record preference =
  sp_key :: string
  sp_value :: json

record SetPreferencesInput =
  sp_preferences :: "preference list"

text \<open>
  \<open>SetPreferencesSchema\<close>: at least one preference, every key a non-empty string, every
  value any JSON value.
\<close>

definition SetPreferencesSchema :: "SetPreferencesInput \<Rightarrow> bool" where
  "SetPreferencesSchema input =
     (sp_preferences input \<noteq> [] \<and> list_all (\<lambda>pref. sp_key pref \<noteq> []) (sp_preferences input))"

text \<open>
  The existing array of a key as the merge reads it inside the transaction: \<open>[]\<close> when
  there is no row or the stored value is not an array.
\<close>

definition existingArray :: "int \<Rightarrow> string \<Rightarrow> db \<Rightarrow> json list" where
  "existingArray userId k s =
     (let existingResult = select_preference userId k s;
          existingValue = (case existingResult of row # rest \<Rightarrow> p_value row | [] \<Rightarrow> JArray [])
      in if isArray existingValue then elements existingValue else [])"

text \<open>The loop that pushes the new names which the existing names do not include.\<close>

fun merge_names :: "string list \<Rightarrow> string list \<Rightarrow> string list \<Rightarrow> string list" where
  "merge_names existingNames [] merged = merged"
| "merge_names existingNames (newName # rest) merged =
     merge_names existingNames rest
       (if newName \<in> set existingNames then merged else merged @ [newName])"

text \<open>
  The value that one iteration of the loop in \<open>handleSetPreferences\<close> stores for a
  preference: merged for an array written to one of the three list keys, the incoming
  value otherwise.
\<close>

definition normalizedValue :: "int \<Rightarrow> preference \<Rightarrow> db \<Rightarrow> json" where
  "normalizedValue userId pref s =
     (let isArrayPreference =
            (sp_key pref \<in> set [''favorite_actors'', ''favorite_directors'', ''favorite_genres''])
      in if isArrayPreference \<and> isArray (sp_value pref)
         then (if sp_key pref = ''favorite_actors'' \<or> sp_key pref = ''favorite_directors''
               then (let existingNames = normalizePersonNames (existingArray userId (sp_key pref) s);
                         newNames = normalizePersonNames (elements (sp_value pref));
                         merged = merge_names existingNames newNames existingNames
                     in JArray (map JString merged))
               else (let existingSet = set (map String (existingArray userId (sp_key pref) s));
                         newValues = filter (\<lambda>item. String item \<notin> existingSet)
                                       (elements (sp_value pref))
                     in JArray (existingArray userId (sp_key pref) s @ newValues)))
         else sp_value pref)"

fun set_preferences_loop :: "int \<Rightarrow> preference list \<Rightarrow> db \<Rightarrow> (error + unit) \<times> db" where
  "set_preferences_loop userId [] s = (Inr (), s)"
| "set_preferences_loop userId (pref # rest) s =
     set_preferences_loop userId rest
       (upsert_preference userId (sp_key pref) (normalizedValue userId pref s) s)"

text \<open>What the handlers of \<open>set_preferences\<close> and \<open>remove_preference_item\<close> return.\<close>

record preferences_result =
  res_message :: string
  res_structuredContent :: preferences_response

definition handleSetPreferences ::
  "environment \<Rightarrow> SetPreferencesInput \<Rightarrow> int \<Rightarrow> system \<Rightarrow> (error + preferences_result) \<times> system" where
  "handleSetPreferences env validatedInput userId sys =
     (if userId = 0 then (Inl (Error ''User ID is required''), sys)
      else (case transaction (set_preferences_loop userId (sp_preferences validatedInput))
                   (store sys) of
              (Inl e, d) \<Rightarrow> (Inl e, sys\<lparr> store := d \<rparr>)
            | (Inr u, d) \<Rightarrow>
                (let sys1 = deleteCached (cacheKey userId) (sys\<lparr> store := d \<rparr>);
                     count = length (sp_preferences validatedInput);
                     successMessage = ''Successfully set '' @ number_to_string (int count)
                        @ '' preference'' @ (if count \<noteq> 1 then ''s'' else []);
                     (preferencesResult, sys2) = getPreferences env userId sys1
                 in (Inr \<lparr> res_message = successMessage,
                            res_structuredContent = preferencesResult \<rparr>, sys2))))"

definition setPreferences ::
  "environment \<Rightarrow> SetPreferencesInput \<Rightarrow> int \<Rightarrow> system
     \<Rightarrow> preferences_result tool_response \<times> system" where
  "setPreferences env =
     withToolHandler SetPreferencesSchema (handleSetPreferences env) ''Failed to save preferences''"

subsection \<open>Removing one item\<close>

record RemovePreferenceItemInput =
  rp_key :: string
  rp_item :: json

text \<open>
  \<open>RemovePreferenceItemSchema\<close>: a non-empty key, and an item that is a string or a number.
\<close>

fun string_or_number :: "json \<Rightarrow> bool" where
  "string_or_number (JString s) = True"
| "string_or_number (JNumber n) = True"
| "string_or_number v = False"

definition RemovePreferenceItemSchema :: "RemovePreferenceItemInput \<Rightarrow> bool" where
  "RemovePreferenceItemSchema input = (rp_key input \<noteq> [] \<and> string_or_number (rp_item input))"

text \<open>
  \<open>x.name !== item\<close> for an element \<open>x\<close> of the stored array. Reading \<open>name\<close> of \<open>null\<close> throws
  a \<open>TypeError\<close>; a value without the property reads \<open>undefined\<close>, which differs from every
  item. The item is a string or a number, so \<open>!==\<close> is inequality of JSON values.
\<close>

fun name_differs :: "json \<Rightarrow> json \<Rightarrow> error + bool" where
  "name_differs item JNull = Inl (Error ''Cannot read properties of null (reading name)'')"
| "name_differs item (JObject kvs) =
     Inr (case map_of kvs ''name'' of None \<Rightarrow> True | Some n \<Rightarrow> n \<noteq> item)"
| "name_differs item x = Inr True"

text \<open>\<open>currentValue.filter((x) => x.name !== item)\<close>, which stops at the first throw.\<close>

fun filter_by_name :: "json \<Rightarrow> json list \<Rightarrow> error + json list" where
  "filter_by_name item [] = Inr []"
| "filter_by_name item (x # xs) =
     (case name_differs item x of
        Inl e \<Rightarrow> Inl e
      | Inr keep \<Rightarrow>
          (case filter_by_name item xs of
             Inl e \<Rightarrow> Inl e
           | Inr ys \<Rightarrow> Inr (if keep then x # ys else ys)))"

text \<open>
  The array that \<open>updatedValue\<close> is assigned: the stored array without the item, by name
  when the first element is an object with a \<open>name\<close>, by value otherwise.
\<close>

definition filter_item :: "json \<Rightarrow> json list \<Rightarrow> error + json list" where
  "filter_item item currentValue =
     (if (case currentValue of first # others \<Rightarrow> has_name first | [] \<Rightarrow> False)
      then filter_by_name item currentValue
      else Inr (filter (\<lambda>x. x \<noteq> item) currentValue))"

text \<open>The callback of the transaction in \<open>handleRemovePreferenceItem\<close>.\<close>

definition remove_item_callback ::
  "RemovePreferenceItemInput \<Rightarrow> int \<Rightarrow> db \<Rightarrow> (error + string) \<times> db" where
  "remove_item_callback validatedInput userId s =
     (case select_preference userId (rp_key validatedInput) s of
        [] \<Rightarrow> (Inl (Error (''Preference '' @ quoted (rp_key validatedInput) @ '' not found'')), s)
      | row # rest \<Rightarrow>
          (let currentValue = p_value row
           in if \<not> isArray currentValue
              then (Inl (Error (''Preference '' @ quoted (rp_key validatedInput)
                                  @ '' is not an array'')), s)
              else (case filter_item (rp_item validatedInput) (elements currentValue) of
                      Inl e \<Rightarrow> (Inl e, s)
                    | Inr updatedValue \<Rightarrow>
                        if length updatedValue = 0
                        then (Inr (''Removed '' @ quoted (String (rp_item validatedInput))
                                     @ '' from '' @ rp_key validatedInput
                                     @ ''. Preference deleted because it's now empty.''),
                              delete_preference userId (rp_key validatedInput) s)
                        else (Inr (''Removed '' @ quoted (String (rp_item validatedInput))
                                     @ '' from '' @ rp_key validatedInput),
                              update_preference userId (rp_key validatedInput)
                                (JArray updatedValue) s))))"

definition handleRemovePreferenceItem ::
  "environment \<Rightarrow> RemovePreferenceItemInput \<Rightarrow> int \<Rightarrow> system
     \<Rightarrow> (error + preferences_result) \<times> system" where
  "handleRemovePreferenceItem env validatedInput userId sys =
     (if userId = 0 then (Inl (Error ''User ID is required''), sys)
      else (case transaction (remove_item_callback validatedInput userId) (store sys) of
              (Inl e, d) \<Rightarrow> (Inl e, sys\<lparr> store := d \<rparr>)
            | (Inr successMessage, d) \<Rightarrow>
                (let sys1 = deleteCached (cacheKey userId) (sys\<lparr> store := d \<rparr>);
                     (preferencesResult, sys2) = getPreferences env userId sys1
                 in (Inr \<lparr> res_message = successMessage,
                            res_structuredContent = preferencesResult \<rparr>, sys2))))"

definition removePreferenceItem ::
  "environment \<Rightarrow> RemovePreferenceItemInput \<Rightarrow> int \<Rightarrow> system
     \<Rightarrow> preferences_result tool_response \<times> system" where
  "removePreferenceItem env =
     withToolHandler RemovePreferenceItemSchema (handleRemovePreferenceItem env)
       ''Failed to remove item''"

subsection \<open>The preference operations as a state machine\<close>

datatype preference_operation =
    SetPreferences int SetPreferencesInput
  | RemovePreferenceItem int RemovePreferenceItemInput
  | GetPreferences int

fun preference_step :: "environment \<Rightarrow> preference_operation \<Rightarrow> system \<Rightarrow> system" where
  "preference_step env (SetPreferences userId input) sys = snd (setPreferences env input userId sys)"
| "preference_step env (RemovePreferenceItem userId input) sys =
     snd (removePreferenceItem env input userId sys)"
| "preference_step env (GetPreferences userId) sys = snd (getPreferences env userId sys)"

fun preference_run :: "environment \<Rightarrow> preference_operation list \<Rightarrow> system \<Rightarrow> system" where
  "preference_run env [] sys = sys"
| "preference_run env (operation # rest) sys =
     preference_run env rest (preference_step env operation sys)"

definition initial_system :: system where
  "initial_system = \<lparr> store = empty_db, redis = Some [], faults = [] \<rparr>"

section \<open>The watchlist and watched operations as a state machine\<close>

datatype operation =
    AddToWatchlist int AddToWatchlistInput
  | RemoveFromWatchlist int RemoveFromWatchlistInput
  | MarkAsWatched int MarkAsWatchedInput

fun step :: "environment \<Rightarrow> operation \<Rightarrow> db \<Rightarrow> db" where
  "step env (AddToWatchlist userId input) s = snd (addToWatchlist env input userId s)"
| "step env (RemoveFromWatchlist userId input) s = snd (removeFromWatchlist input userId s)"
| "step env (MarkAsWatched userId input) s = snd (markAsWatched env input userId s)"

fun run :: "environment \<Rightarrow> operation list \<Rightarrow> db \<Rightarrow> db" where
  "run env [] s = s"
| "run env (operation # rest) s = run env rest (step env operation s)"

text \<open>
  A provider for worked examples: every identifier resolves to a film that has no release
  date on record, except 999, which is released at time 100, after the clock (50); the
  person lookup knows one name.
\<close>

definition example_env :: environment where
  "example_env =
     \<lparr> getMovieDetails =
         (\<lambda>t. Inr \<lparr> md_tmdb_id = t, md_title = ''Film'',
                    md_release_date = (if t = 999 then Some 100 else None) \<rparr>),
       now = 50,
       searchPeople =
         (\<lambda>name. if name = ''Tom Hanks''
                  then Inr [\<lparr> person_id = 31, person_profile_url = Some ''/hanks.jpg'' \<rparr>]
                  else Inr []) \<rparr>"

text \<open>A batch of three entries; the second is either film 999 or an entry with rating 0.\<close>

definition example_batch :: "bool option \<Rightarrow> int \<Rightarrow> MarkAsWatchedBatchInput" where
  "example_batch flag second =
     \<lparr> b_entries =
         [\<lparr> w_tmdb_id = 11, w_rating = 4, w_notes = None \<rparr>,
          \<lparr> w_tmdb_id = second, w_rating = (if second = 999 then 3 else 0), w_notes = None \<rparr>,
          \<lparr> w_tmdb_id = 13, w_rating = 5, w_notes = None \<rparr>],
       b_transaction = flag \<rparr>"

text \<open>Two states of the store hold the same rows in every table.\<close>

definition same_tables :: "db \<Rightarrow> db \<Rightarrow> bool" where
  "same_tables s s' =
     (movies s' = movies s \<and> watchlist s' = watchlist s \<and> watched s' = watched s
      \<and> preferences s' = preferences s)"

text \<open>Inputs and reachable states for worked examples with film 550.\<close>

definition mark_550 :: "int \<Rightarrow> MarkAsWatchedInput" where
  "mark_550 r = \<lparr> w_tmdb_id = 550, w_rating = r, w_notes = None \<rparr>"

definition add_550 :: AddToWatchlistInput where
  "add_550 = \<lparr> a_tmdb_id = 550, a_notes = None \<rparr>"

definition watched_then_added :: db where
  "watched_then_added =
     run example_env [MarkAsWatched 1 (mark_550 4), AddToWatchlist 1 add_550] empty_db"

definition only_added :: db where
  "only_added = run example_env [AddToWatchlist 1 add_550] empty_db"

section \<open>Vocabulary of the properties\<close>

text \<open>The three list-valued keys, and the two of them that hold person names.\<close>

definition list_valued_key :: "string \<Rightarrow> bool" where
  "list_valued_key k = (k \<in> set [''favorite_actors'', ''favorite_directors'', ''favorite_genres''])"

definition person_key :: "string \<Rightarrow> bool" where
  "person_key k = (k = ''favorite_actors'' \<or> k = ''favorite_directors'')"

text \<open>A \<open>set_preferences\<close> input with one key and one value.\<close>

definition single_preference :: "string \<Rightarrow> json \<Rightarrow> SetPreferencesInput" where
  "single_preference k v = \<lparr> sp_preferences = [\<lparr> sp_key = k, sp_value = v \<rparr>] \<rparr>"

text \<open>No row of a list-valued key holds the empty list.\<close>

definition no_empty_list :: "db \<Rightarrow> bool" where
  "no_empty_list s =
     (\<forall>row \<in> set (preferences s). list_valued_key (p_key row) \<longrightarrow> p_value row \<noteq> JArray [])"

text \<open>
  The pair gives an empty array for a list-valued key of which the store, at that moment,
  holds no element (there is no row, or the stored value is not an array or is the empty
  array).
\<close>

definition stores_empty_list :: "int \<Rightarrow> preference \<Rightarrow> db \<Rightarrow> bool" where
  "stores_empty_list userId pref s =
     (list_valued_key (sp_key pref) \<and> sp_value pref = JArray []
      \<and> existingArray userId (sp_key pref) s = [])"

text \<open>
  Some pair of the loop is such a pair in the state in which the loop comes to it, and no
  later pair of the loop has its key.
\<close>

fun loop_leaves_empty_list :: "int \<Rightarrow> preference list \<Rightarrow> db \<Rightarrow> bool" where
  "loop_leaves_empty_list userId [] s = False"
| "loop_leaves_empty_list userId (pref # rest) s =
     ((stores_empty_list userId pref s \<and> sp_key pref \<notin> set (map sp_key rest))
      \<or> loop_leaves_empty_list userId rest
           (upsert_preference userId (sp_key pref) (normalizedValue userId pref s) s))"

text \<open>The operation is a \<open>setPreferences\<close> call that gets as far as its loop and has such a pair.\<close>

fun call_leaves_empty_list :: "preference_operation \<Rightarrow> system \<Rightarrow> bool" where
  "call_leaves_empty_list (SetPreferences userId input) sys =
     (SetPreferencesSchema input \<and> userId \<noteq> 0
      \<and> loop_leaves_empty_list userId (sp_preferences input) (store sys))"
| "call_leaves_empty_list operation sys = False"

text \<open>Some operation of the sequence is such a call in the state in which it is made.\<close>

fun run_leaves_empty_list ::
  "environment \<Rightarrow> preference_operation list \<Rightarrow> system \<Rightarrow> bool" where
  "run_leaves_empty_list env [] sys = False"
| "run_leaves_empty_list env (operation # rest) sys =
     (call_leaves_empty_list operation sys
      \<or> run_leaves_empty_list env rest (preference_step env operation sys))"

text \<open>
  No row of a list-valued key holds the empty list, before the sequence, between any two of
  its operations and after it.
\<close>

fun always_no_empty_list ::
  "environment \<Rightarrow> preference_operation list \<Rightarrow> system \<Rightarrow> bool" where
  "always_no_empty_list env [] sys = no_empty_list (store sys)"
| "always_no_empty_list env (operation # rest) sys =
     (no_empty_list (store sys)
      \<and> always_no_empty_list env rest (preference_step env operation sys))"





text \<open>Reachable states of the preference operations for worked examples.\<close>

definition genres_after_first :: system where
  "genres_after_first =
     preference_run example_env
       [SetPreferences 1 (single_preference ''favorite_genres''
                            (JArray [JString ''Action'', JString ''Comedy'']))]
       initial_system"

definition genres_replaced_example :: "SetPreferencesInput" where
  "genres_replaced_example = single_preference ''favorite_genres'' (JString ''Horror'')"

definition repeated_genre :: SetPreferencesInput where
  "repeated_genre =
     single_preference ''favorite_genres'' (JArray [JString ''Action'', JString ''Action''])"

definition repeated_actor :: SetPreferencesInput where
  "repeated_actor =
     single_preference ''favorite_actors''
       (JArray [JString ''Tom Hanks'', JObject [(''name'', JString ''Tom Hanks'')]])"






definition empty_genres_written :: system where
  "empty_genres_written =
     preference_run example_env
       [SetPreferences 1 (single_preference ''favorite_genres'' (JArray []))] initial_system"

definition add_then_remove_genre :: "preference_operation list" where
  "add_then_remove_genre =
     [SetPreferences 1 (single_preference ''favorite_genres'' (JArray [JString ''Action''])),
      SetPreferences 1 (single_preference ''favorite_genres'' (JArray [])),
      GetPreferences 1,
      RemovePreferenceItem 1 \<lparr> rp_key = ''favorite_genres'', rp_item = JString ''Action'' \<rparr>]"

definition remove_action :: RemovePreferenceItemInput where
  "remove_action = \<lparr> rp_key = ''favorite_genres'', rp_item = JString ''Action'' \<rparr>"

section \<open>Transactions and the batch loops\<close>

lemma transaction_rollback:
  "transaction callback s = (Inl e, s') \<Longrightarrow> same_tables s s'"
  by (auto simp: transaction_def same_tables_def split: prod.splits sum.splits)

lemma transaction_fst:
  "fst (transaction callback s) = fst (callback s)"
  by (auto simp: transaction_def split: prod.splits sum.splits)

lemma transaction_commit:
  "callback s = (Inr r, s') \<Longrightarrow> transaction callback s = (Inr r, s')"
  by (simp add: transaction_def)

lemma transactional_loop_append:
  "transactional_loop env userId (pre @ rest) acc s =
     (case transactional_loop env userId pre acc s of
        (Inl e, s') \<Rightarrow> (Inl e, s')
      | (Inr rs, s1) \<Rightarrow> transactional_loop env userId rest rs s1)"
  by (induction pre arbitrary: acc s) (auto split: prod.splits sum.splits)

lemma best_effort_loop_append:
  "best_effort_loop env userId (pre @ rest) acc s =
     (case best_effort_loop env userId pre acc s of
        (rs, s1) \<Rightarrow> best_effort_loop env userId rest rs s1)"
  by (induction pre arbitrary: acc s) (auto split: prod.splits sum.splits)

lemma best_effort_loop_acc:
  "best_effort_loop env userId es acc s =
     (acc @ fst (best_effort_loop env userId es [] s), snd (best_effort_loop env userId es [] s))"
proof (induction es arbitrary: acc s)
  case Nil
  then show ?case by simp
next
  case (Cons entry rest)
  show ?case
  proof (cases "transaction (handleMarkAsWatched env entry userId) s")
    case (Pair r s')
    show ?thesis
    proof (cases r)
      case (Inl e)
      with Pair show ?thesis
        using Cons.IH[of "acc @ [\<lparr> bi_tmdb_id = w_tmdb_id entry, bi_success = False, bi_message = error_message e \<rparr>]" s']
              Cons.IH[of "[\<lparr> bi_tmdb_id = w_tmdb_id entry, bi_success = False, bi_message = error_message e \<rparr>]" s']
        by simp
    next
      case (Inr res)
      with Pair show ?thesis
        using Cons.IH[of "acc @ [\<lparr> bi_tmdb_id = w_tmdb_id entry, bi_success = success res, bi_message = message res \<rparr>]" s']
              Cons.IH[of "[\<lparr> bi_tmdb_id = w_tmdb_id entry, bi_success = success res, bi_message = message res \<rparr>]" s']
        by simp
    qed
  qed
qed

lemma best_effort_loop_ids:
  "map bi_tmdb_id (fst (best_effort_loop env userId es acc s)) = map bi_tmdb_id acc @ map w_tmdb_id es"
  by (induction es arbitrary: acc s) (auto split: prod.splits sum.splits)

lemma handleMarkAsWatched_success:
  "handleMarkAsWatched env input userId s = (Inr r, s') \<Longrightarrow> success r"
  by (auto simp: handleMarkAsWatched_def Let_def split: sum.splits if_splits prod.splits list.splits option.splits)

lemma best_effort_loop_length:
  "length (fst (best_effort_loop env userId es [] s)) = length es"
  using best_effort_loop_ids[of env userId es "[]" s]
  by (metis length_map list.simps(8) self_append_conv2)

lemma best_effort_loop_fst_append:
  "fst (best_effort_loop env userId (xs @ ys) [] s) =
     fst (best_effort_loop env userId xs [] s) @
     fst (best_effort_loop env userId ys [] (snd (best_effort_loop env userId xs [] s)))"
  by (simp add: best_effort_loop_append split: prod.splits)
     (metis best_effort_loop_acc fst_conv)

lemma best_effort_loop_snd_append:
  "snd (best_effort_loop env userId (xs @ ys) [] s) =
     snd (best_effort_loop env userId ys [] (snd (best_effort_loop env userId xs [] s)))"
  by (simp add: best_effort_loop_append split: prod.splits)
     (metis best_effort_loop_acc snd_conv)

lemma best_effort_loop_single:
  "best_effort_loop env userId [entry] [] s =
     (case transaction (handleMarkAsWatched env entry userId) s of
        (Inr r, s') \<Rightarrow> ([\<lparr> bi_tmdb_id = w_tmdb_id entry, bi_success = success r, bi_message = message r \<rparr>], s')
      | (Inl e, s') \<Rightarrow> ([\<lparr> bi_tmdb_id = w_tmdb_id entry, bi_success = False, bi_message = error_message e \<rparr>], s'))"
  by (simp split: prod.splits sum.splits)

lemma best_effort_entry:
  fixes env :: environment and userId :: int and s :: db and es :: "MarkAsWatchedInput list"
  assumes i: "i < length es"
  defines "s_i \<equiv> snd (best_effort_loop env userId (take i es) [] s)"
  defines "outcome \<equiv> transaction (handleMarkAsWatched env (es ! i) userId) s_i"
  shows "bi_tmdb_id (fst (best_effort_loop env userId es [] s) ! i) = w_tmdb_id (es ! i)"
    and "bi_success (fst (best_effort_loop env userId es [] s) ! i) = (\<not> isl (fst outcome))"
    and "snd (best_effort_loop env userId (take (Suc i) es) [] s) = snd outcome"
    and "\<not> bi_success (fst (best_effort_loop env userId es [] s) ! i) \<Longrightarrow> same_tables s_i (snd outcome)"
    and "fst (best_effort_loop env userId es [] s) ! i =
           (case outcome of
              (Inr r, t) \<Rightarrow>
                \<lparr> bi_tmdb_id = w_tmdb_id (es ! i), bi_success = success r, bi_message = message r \<rparr>
            | (Inl e, t) \<Rightarrow>
                \<lparr> bi_tmdb_id = w_tmdb_id (es ! i), bi_success = False, bi_message = error_message e \<rparr>)"
proof -
  have es: "es = take i es @ [es ! i] @ drop (Suc i) es"
    using i by (simp add: Cons_nth_drop_Suc)
  have len: "length (fst (best_effort_loop env userId (take i es) [] s)) = i"
    using i by (simp add: best_effort_loop_length)
  have nth: "fst (best_effort_loop env userId es [] s) ! i =
               hd (fst (best_effort_loop env userId [es ! i] [] s_i))"
  proof -
    have "fst (best_effort_loop env userId es [] s) =
            fst (best_effort_loop env userId (take i es) [] s) @
            fst (best_effort_loop env userId ([es ! i] @ drop (Suc i) es) [] s_i)"
      using best_effort_loop_fst_append[of env userId "take i es" "[es ! i] @ drop (Suc i) es" s] es
      by (simp add: s_i_def)
    also have "fst (best_effort_loop env userId ([es ! i] @ drop (Suc i) es) [] s_i) =
            fst (best_effort_loop env userId [es ! i] [] s_i) @
            fst (best_effort_loop env userId (drop (Suc i) es) []
                   (snd (best_effort_loop env userId [es ! i] [] s_i)))"
      by (rule best_effort_loop_fst_append)
    finally have eq: "fst (best_effort_loop env userId es [] s) =
            fst (best_effort_loop env userId (take i es) [] s) @
            (fst (best_effort_loop env userId [es ! i] [] s_i) @
            fst (best_effort_loop env userId (drop (Suc i) es) []
                   (snd (best_effort_loop env userId [es ! i] [] s_i))))" .
    have one: "length (fst (best_effort_loop env userId [es ! i] [] s_i)) = 1"
      using best_effort_loop_length[of env userId "[es ! i]" s_i]
      by (simp del: best_effort_loop.simps)
    then obtain x where x: "fst (best_effort_loop env userId [es ! i] [] s_i) = [x]"
      by (cases "fst (best_effort_loop env userId [es ! i] [] s_i)") auto
    show ?thesis
      by (subst eq) (simp add: nth_append len x del: best_effort_loop.simps)
  qed
  show "bi_tmdb_id (fst (best_effort_loop env userId es [] s) ! i) = w_tmdb_id (es ! i)"
    unfolding nth by (simp add: best_effort_loop_single split: prod.splits sum.splits)
  show succ: "bi_success (fst (best_effort_loop env userId es [] s) ! i) = (\<not> isl (fst outcome))"
    unfolding nth outcome_def
    by (auto simp: best_effort_loop_single transaction_def
             split: prod.splits sum.splits dest: handleMarkAsWatched_success)
  have "take (Suc i) es = take i es @ [es ! i]"
    using i by (simp add: take_Suc_conv_app_nth)
  then show "snd (best_effort_loop env userId (take (Suc i) es) [] s) = snd outcome"
    by (simp add: best_effort_loop_snd_append s_i_def[symmetric] best_effort_loop_single outcome_def
             split: prod.splits sum.splits)
  show "same_tables s_i (snd outcome)"
    if "\<not> bi_success (fst (best_effort_loop env userId es [] s) ! i)"
  proof -
    from that succ have "isl (fst outcome)" by simp
    then obtain e s2 where "outcome = (Inl e, s2)"
      by (cases outcome; cases "fst outcome") auto
    then show ?thesis
      using transaction_rollback[of "handleMarkAsWatched env (es ! i) userId" s_i e s2]
      by (simp add: outcome_def)
  qed
  show "fst (best_effort_loop env userId es [] s) ! i =
           (case outcome of
              (Inr r, t) \<Rightarrow>
                \<lparr> bi_tmdb_id = w_tmdb_id (es ! i), bi_success = success r, bi_message = message r \<rparr>
            | (Inl e, t) \<Rightarrow>
                \<lparr> bi_tmdb_id = w_tmdb_id (es ! i), bi_success = False, bi_message = error_message e \<rparr>)"
    unfolding nth outcome_def
    by (simp add: best_effort_loop_single split: prod.splits sum.splits)
qed

lemma transaction_committed:
  "transaction callback s = (Inr r, s') \<Longrightarrow> callback s = (Inr r, s')"
  by (auto simp: transaction_def split: prod.splits sum.splits)

section \<open>Batch semantics\<close>

text \<open>
  C2, as stated, fails on its own example. With \<open>transaction = false\<close> and three entries of
  which the second has rating 0, \<open>MarkAsWatchedBatchSchema.parse\<close> rejects the whole input
  before the loop starts: the call throws the \<open>ZodError\<close>, no entry is processed and no row
  is written.
\<close>

theorem best_effort_rating_zero_counterexample:
  "markAsWatchedBatch example_env (example_batch (Some False) 12) 1 empty_db = (Inl ZodError, empty_db)"
  by code_simp

text \<open>
  C2, amended. With \<open>transaction = false\<close>: an input the schema rejects (an empty list, or
  an entry whose rating is outside 1..5 or whose id is not positive) makes the call throw
  \<open>ZodError\<close> and leaves the store as it was. An input the schema accepts never makes the
  call throw: it returns one record per entry, in order, and the store passes through one
  state per entry, from the state before the call to the state the call leaves. Entry \<open>i\<close>
  is run in a transaction of its own on the state left by the entries before it, and that
  transaction leaves the next state. If it commits, the record of the entry carries its
  id, \<open>success = true\<close> and the message of the handler; if it throws, the record carries
  its id, \<open>success = false\<close> and the message of the exception, and every table is as the
  entry found it.
\<close>

theorem best_effort_batch_amended:
  assumes "b_transaction input = Some False"
  shows "(\<not> MarkAsWatchedBatchSchema input \<longrightarrow>
            markAsWatchedBatch env input userId s = (Inl ZodError, s))
       \<and> (MarkAsWatchedBatchSchema input \<longrightarrow>
            (\<exists>results states s'.
               markAsWatchedBatch env input userId s =
                 (Inr \<lparr> batch_success = list_all bi_success results, batch_results = results \<rparr>, s')
               \<and> length results = length (b_entries input)
               \<and> length states = Suc (length (b_entries input))
               \<and> states ! 0 = s
               \<and> states ! length (b_entries input) = s'
               \<and> (\<forall>i < length (b_entries input).
                     case transaction (handleMarkAsWatched env (b_entries input ! i) userId)
                            (states ! i) of
                       (Inr r, t) \<Rightarrow>
                         results ! i = \<lparr> bi_tmdb_id = w_tmdb_id (b_entries input ! i),
                                         bi_success = True, bi_message = message r \<rparr>
                         \<and> states ! Suc i = t
                     | (Inl e, t) \<Rightarrow>
                         results ! i = \<lparr> bi_tmdb_id = w_tmdb_id (b_entries input ! i),
                                         bi_success = False, bi_message = error_message e \<rparr>
                         \<and> states ! Suc i = t
                         \<and> same_tables (states ! i) t)))"
proof (intro conjI impI)
  assume "\<not> MarkAsWatchedBatchSchema input"
  then show "markAsWatchedBatch env input userId s = (Inl ZodError, s)"
    by (simp add: markAsWatchedBatch_def)
next
  assume valid: "MarkAsWatchedBatchSchema input"
  define es where "es = b_entries input"
  define results where "results = fst (best_effort_loop env userId es [] s)"
  define state_after where
    "state_after = (\<lambda>i. snd (best_effort_loop env userId (take i es) [] s))"
  define states where "states = map state_after [0..<Suc (length es)]"
  define s' where "s' = snd (best_effort_loop env userId es [] s)"
  have run: "markAsWatchedBatch env input userId s =
               (Inr \<lparr> batch_success = list_all bi_success results, batch_results = results \<rparr>, s')"
    using valid assms
    by (simp add: markAsWatchedBatch_def validated_transaction_def results_def s'_def es_def
             split: prod.splits)
  have len: "length results = length es"
    by (simp add: results_def best_effort_loop_length)
  have slen: "length states = Suc (length es)"
    by (simp add: states_def)
  have nth_state: "states ! i = state_after i" if "i \<le> length es" for i
  proof -
    from that have "i < length [0..<Suc (length es)]" by simp
    then have "states ! i = state_after ([0..<Suc (length es)] ! i)"
      unfolding states_def by (rule nth_map)
    also have "[0..<Suc (length es)] ! i = i"
      using that by (simp add: nth_upt del: upt_Suc)
    finally show ?thesis .
  qed
  have first: "states ! 0 = s"
    using nth_state[of 0] by (simp add: state_after_def)
  have final: "states ! length es = s'"
    using nth_state[of "length es"] by (simp add: state_after_def s'_def)
  have each: "\<forall>i < length es.
                case transaction (handleMarkAsWatched env (es ! i) userId) (states ! i) of
                  (Inr r, t) \<Rightarrow>
                    results ! i = \<lparr> bi_tmdb_id = w_tmdb_id (es ! i),
                                    bi_success = True, bi_message = message r \<rparr>
                    \<and> states ! Suc i = t
                | (Inl e, t) \<Rightarrow>
                    results ! i = \<lparr> bi_tmdb_id = w_tmdb_id (es ! i),
                                    bi_success = False, bi_message = error_message e \<rparr>
                    \<and> states ! Suc i = t
                    \<and> same_tables (states ! i) t"
  proof (intro allI impI)
    fix i
    assume i: "i < length es"
    obtain r t where outcome:
      "transaction (handleMarkAsWatched env (es ! i) userId) (state_after i) = (r, t)"
      by (cases "transaction (handleMarkAsWatched env (es ! i) userId) (state_after i)")
    have here: "states ! i = state_after i"
      using i by (intro nth_state) simp
    have there: "states ! Suc i = t"
      using best_effort_entry(3)[OF i, of env userId s] outcome nth_state[of "Suc i"] i
      by (simp add: state_after_def)
    have item: "results ! i =
                  (case r of
                     Inr res \<Rightarrow>
                       \<lparr> bi_tmdb_id = w_tmdb_id (es ! i), bi_success = success res,
                         bi_message = message res \<rparr>
                   | Inl e \<Rightarrow>
                       \<lparr> bi_tmdb_id = w_tmdb_id (es ! i), bi_success = False,
                         bi_message = error_message e \<rparr>)"
      using best_effort_entry(5)[OF i, of env userId s] outcome
      by (simp add: results_def state_after_def split: sum.splits)
    show "case transaction (handleMarkAsWatched env (es ! i) userId) (states ! i) of
            (Inr r, t) \<Rightarrow>
              results ! i = \<lparr> bi_tmdb_id = w_tmdb_id (es ! i),
                              bi_success = True, bi_message = message r \<rparr>
              \<and> states ! Suc i = t
          | (Inl e, t) \<Rightarrow>
              results ! i = \<lparr> bi_tmdb_id = w_tmdb_id (es ! i),
                              bi_success = False, bi_message = error_message e \<rparr>
              \<and> states ! Suc i = t
              \<and> same_tables (states ! i) t"
    proof (cases r)
      case (Inl e)
      have "same_tables (state_after i) t"
        using outcome unfolding Inl by (rule transaction_rollback)
      then show ?thesis
        using item there by (simp add: here outcome Inl)
    next
      case (Inr res)
      have "handleMarkAsWatched env (es ! i) userId (state_after i) = (Inr res, t)"
        using outcome unfolding Inr by (rule transaction_committed)
      then have "success res"
        by (rule handleMarkAsWatched_success)
      then show ?thesis
        using item there by (simp add: here outcome Inr)
    qed
  qed
  show "\<exists>results states s'.
          markAsWatchedBatch env input userId s =
            (Inr \<lparr> batch_success = list_all bi_success results, batch_results = results \<rparr>, s')
          \<and> length results = length (b_entries input)
          \<and> length states = Suc (length (b_entries input))
          \<and> states ! 0 = s
          \<and> states ! length (b_entries input) = s'
          \<and> (\<forall>i < length (b_entries input).
                case transaction (handleMarkAsWatched env (b_entries input ! i) userId)
                       (states ! i) of
                  (Inr r, t) \<Rightarrow>
                    results ! i = \<lparr> bi_tmdb_id = w_tmdb_id (b_entries input ! i),
                                    bi_success = True, bi_message = message r \<rparr>
                    \<and> states ! Suc i = t
                | (Inl e, t) \<Rightarrow>
                    results ! i = \<lparr> bi_tmdb_id = w_tmdb_id (b_entries input ! i),
                                    bi_success = False, bi_message = error_message e \<rparr>
                    \<and> states ! Suc i = t
                    \<and> same_tables (states ! i) t)"
    apply (rule exI[of _ results])
    apply (rule exI[of _ states])
    apply (rule exI[of _ s'])
    using run len slen first final each unfolding es_def
    apply (intro conjI)
         apply assumption+
    done
qed

text \<open>
  The example of C2 with a second entry that fails at run time (film 999 is not released
  yet): entries 1 and 3 succeed and their rows are present, entry 2 is reported as failed
  with the message of its exception and leaves the tables as the first entry left them,
  and the store goes through four states.
\<close>

theorem best_effort_batch_amended_witness:
  "b_transaction (example_batch (Some False) 999) = Some False
   \<and> MarkAsWatchedBatchSchema (example_batch (Some False) 999)
   \<and> \<not> MarkAsWatchedBatchSchema (example_batch (Some False) 12)
   \<and> markAsWatchedBatch example_env (example_batch (Some False) 12) 1 empty_db = (Inl ZodError, empty_db)
   \<and> (\<exists>results states s'.
         markAsWatchedBatch example_env (example_batch (Some False) 999) 1 empty_db =
           (Inr \<lparr> batch_success = list_all bi_success results, batch_results = results \<rparr>, s')
         \<and> length results = 3
         \<and> length states = 4 \<and> states ! 0 = empty_db \<and> states ! 3 = s'
         \<and> states ! 1 =
             \<lparr> movies = [\<lparr> m_id = 1, m_tmdb_id = 11, m_title = ''Film'' \<rparr>], movies_id_seq = 2,
               watchlist = [],
               watched = [\<lparr> wd_user_id = 1, wd_movie_id = 1, wd_rating = 4, wd_notes = None \<rparr>],
               preferences = [] \<rparr>
         \<and> results ! 1 =
             \<lparr> bi_tmdb_id = 999, bi_success = False, bi_message = not_released_message ''Film'' \<rparr>
         \<and> same_tables (states ! 1) (states ! 2)
         \<and> results =
             [\<lparr> bi_tmdb_id = 11, bi_success = True, bi_message = ''Movie marked as watched.'' \<rparr>,
              \<lparr> bi_tmdb_id = 999, bi_success = False, bi_message = not_released_message ''Film'' \<rparr>,
              \<lparr> bi_tmdb_id = 13, bi_success = True, bi_message = ''Movie marked as watched.'' \<rparr>]
         \<and> isWatched 1 1 s' \<and> isWatched 1 2 s' \<and> length (watched s') = 2)"
proof -
  let ?e1 = "\<lparr> w_tmdb_id = 11, w_rating = 4, w_notes = None \<rparr>"
  let ?e2 = "\<lparr> w_tmdb_id = 999, w_rating = 3, w_notes = None \<rparr>"
  let ?s1 = "\<lparr> movies = [\<lparr> m_id = 1, m_tmdb_id = 11, m_title = ''Film'' \<rparr>], movies_id_seq = 2,
               watchlist = [],
               watched = [\<lparr> wd_user_id = 1, wd_movie_id = 1, wd_rating = 4, wd_notes = None \<rparr>],
               preferences = [] \<rparr>"
  have flag: "b_transaction (example_batch (Some False) 999) = Some False"
    and flag': "b_transaction (example_batch (Some False) 12) = Some False"
    by (simp_all add: example_batch_def)
  have valid: "MarkAsWatchedBatchSchema (example_batch (Some False) 999)"
    and invalid: "\<not> MarkAsWatchedBatchSchema (example_batch (Some False) 12)"
    by code_simp+
  have three: "length (b_entries (example_batch (Some False) 999)) = 3"
    by (simp add: example_batch_def)
  have entry0: "b_entries (example_batch (Some False) 999) ! 0 = ?e1"
    and entry1: "b_entries (example_batch (Some False) 999) ! Suc 0 = ?e2"
    by (simp_all add: example_batch_def)
  from best_effort_batch_amended[OF flag', of example_env 1 empty_db] invalid
  have rejected: "markAsWatchedBatch example_env (example_batch (Some False) 12) 1 empty_db = (Inl ZodError, empty_db)"
    by blast
  from best_effort_batch_amended[OF flag, of example_env 1 empty_db, THEN conjunct2, rule_format, OF valid]
  obtain results states s' where
    run: "markAsWatchedBatch example_env (example_batch (Some False) 999) 1 empty_db =
           (Inr \<lparr> batch_success = list_all bi_success results, batch_results = results \<rparr>, s')"
    and len: "length results = length (b_entries (example_batch (Some False) 999))"
    and slen: "length states = Suc (length (b_entries (example_batch (Some False) 999)))"
    and first: "states ! 0 = empty_db"
    and final: "states ! length (b_entries (example_batch (Some False) 999)) = s'"
    and each: "\<forall>i < length (b_entries (example_batch (Some False) 999)).
                 case transaction
                        (handleMarkAsWatched example_env
                           (b_entries (example_batch (Some False) 999) ! i) 1) (states ! i) of
                   (Inr r, t) \<Rightarrow>
                     results ! i =
                       \<lparr> bi_tmdb_id = w_tmdb_id (b_entries (example_batch (Some False) 999) ! i),
                         bi_success = True, bi_message = message r \<rparr>
                     \<and> states ! Suc i = t
                 | (Inl e, t) \<Rightarrow>
                     results ! i =
                       \<lparr> bi_tmdb_id = w_tmdb_id (b_entries (example_batch (Some False) 999) ! i),
                         bi_success = False, bi_message = error_message e \<rparr>
                     \<and> states ! Suc i = t
                     \<and> same_tables (states ! i) t"
    by blast
  have committed: "transaction (handleMarkAsWatched example_env ?e1 1) empty_db =
                     (Inr \<lparr> success = True, message = ''Movie marked as watched.'' \<rparr>, ?s1)"
    by code_simp
  have thrown: "transaction (handleMarkAsWatched example_env ?e2 1) ?s1 =
                  (Inl (Error (not_released_message ''Film'')), ?s1)"
    by code_simp
  from each[rule_format, of 0]
  have state1: "states ! Suc 0 = ?s1"
    by (simp add: three first entry0 committed)
  have "Suc 0 < length (b_entries (example_batch (Some False) 999))"
    by (simp add: three)
  from each[rule_format, OF this]
  have step1: "results ! Suc 0 =
                 \<lparr> bi_tmdb_id = w_tmdb_id ?e2, bi_success = False,
                   bi_message = error_message (Error (not_released_message ''Film'')) \<rparr>
               \<and> states ! Suc (Suc 0) = ?s1
               \<and> same_tables (states ! Suc 0) ?s1"
    unfolding entry1 state1 thrown by simp
  then have second: "results ! Suc 0 =
                  \<lparr> bi_tmdb_id = 999, bi_success = False, bi_message = not_released_message ''Film'' \<rparr>
                \<and> same_tables (states ! Suc 0) (states ! Suc (Suc 0))"
    by simp
  have computed: "markAsWatchedBatch example_env (example_batch (Some False) 999) 1 empty_db =
     (Inr \<lparr> batch_success = False,
             batch_results =
               [\<lparr> bi_tmdb_id = 11, bi_success = True, bi_message = ''Movie marked as watched.'' \<rparr>,
                \<lparr> bi_tmdb_id = 999, bi_success = False, bi_message = not_released_message ''Film'' \<rparr>,
                \<lparr> bi_tmdb_id = 13, bi_success = True, bi_message = ''Movie marked as watched.'' \<rparr>] \<rparr>,
      \<lparr> movies = [\<lparr> m_id = 1, m_tmdb_id = 11, m_title = ''Film'' \<rparr>,
                  \<lparr> m_id = 2, m_tmdb_id = 13, m_title = ''Film'' \<rparr>],
        movies_id_seq = 3, watchlist = [],
        watched = [\<lparr> wd_user_id = 1, wd_movie_id = 1, wd_rating = 4, wd_notes = None \<rparr>,
                   \<lparr> wd_user_id = 1, wd_movie_id = 2, wd_rating = 5, wd_notes = None \<rparr>],
        preferences = [] \<rparr>)"
    by code_simp
  from run computed have res: "results =
               [\<lparr> bi_tmdb_id = 11, bi_success = True, bi_message = ''Movie marked as watched.'' \<rparr>,
                \<lparr> bi_tmdb_id = 999, bi_success = False, bi_message = not_released_message ''Film'' \<rparr>,
                \<lparr> bi_tmdb_id = 13, bi_success = True, bi_message = ''Movie marked as watched.'' \<rparr>]"
    and st: "s' = \<lparr> movies = [\<lparr> m_id = 1, m_tmdb_id = 11, m_title = ''Film'' \<rparr>,
                  \<lparr> m_id = 2, m_tmdb_id = 13, m_title = ''Film'' \<rparr>],
        movies_id_seq = 3, watchlist = [],
        watched = [\<lparr> wd_user_id = 1, wd_movie_id = 1, wd_rating = 4, wd_notes = None \<rparr>,
                   \<lparr> wd_user_id = 1, wd_movie_id = 2, wd_rating = 5, wd_notes = None \<rparr>],
        preferences = [] \<rparr>"
    by simp_all
  have len3: "length results = 3"
    by (simp add: res)
  have slen4: "length states = 4" and final3: "states ! 3 = s'"
    using slen final unfolding three by simp_all
  have state1': "states ! 1 = ?s1"
    using state1 by simp
  have second1: "results ! 1 =
                   \<lparr> bi_tmdb_id = 999, bi_success = False, bi_message = not_released_message ''Film'' \<rparr>"
    using second by simp
  have second2: "same_tables (states ! 1) (states ! 2)"
    using second by (simp add: numeral_2_eq_2)
  have w1: "isWatched 1 1 s'" and w2: "isWatched 1 2 s'" and w3: "length (watched s') = 2"
    by (simp_all add: st isWatched_def)
  have batch: "\<exists>results states s'.
         markAsWatchedBatch example_env (example_batch (Some False) 999) 1 empty_db =
           (Inr \<lparr> batch_success = list_all bi_success results, batch_results = results \<rparr>, s')
         \<and> length results = 3
         \<and> length states = 4 \<and> states ! 0 = empty_db \<and> states ! 3 = s'
         \<and> states ! 1 = ?s1
         \<and> results ! 1 =
             \<lparr> bi_tmdb_id = 999, bi_success = False, bi_message = not_released_message ''Film'' \<rparr>
         \<and> same_tables (states ! 1) (states ! 2)
         \<and> results =
             [\<lparr> bi_tmdb_id = 11, bi_success = True, bi_message = ''Movie marked as watched.'' \<rparr>,
              \<lparr> bi_tmdb_id = 999, bi_success = False, bi_message = not_released_message ''Film'' \<rparr>,
              \<lparr> bi_tmdb_id = 13, bi_success = True, bi_message = ''Movie marked as watched.'' \<rparr>]
         \<and> isWatched 1 1 s' \<and> isWatched 1 2 s' \<and> length (watched s') = 2"
    apply (rule exI[of _ results])
    apply (rule exI[of _ states])
    apply (rule exI[of _ s'])
    using run len3 slen4 first final3 state1' second1 second2 res w1 w2 w3
    apply (intro conjI)
               apply assumption+
    done
  from flag valid invalid rejected batch show ?thesis
    by (intro conjI)
qed

lemma batch_schema_rating:
  "MarkAsWatchedBatchSchema input \<Longrightarrow> entry \<in> set (b_entries input) \<Longrightarrow> w_rating entry \<noteq> 0"
  by (auto simp: MarkAsWatchedBatchSchema_def MarkAsWatchedSchema_def list_all_iff)

text \<open>
  C4. With \<open>transaction = true\<close> (or left out): whenever the call fails, it fails with one
  exception and every table is as it was before the call; if an entry throws after the
  entries before it went through, the call fails with that exception; and an entry with
  rating 0 makes the call fail with the \<open>ZodError\<close> of the schema, the store untouched.
\<close>

theorem transactional_batch_atomic:
  assumes "validated_transaction input"
  shows "(\<forall>e s'. markAsWatchedBatch env input userId s = (Inl e, s') \<longrightarrow> same_tables s s')
       \<and> (\<forall>pre entry post rs s1 e.
             MarkAsWatchedBatchSchema input
             \<and> b_entries input = pre @ entry # post
             \<and> transactional_loop env userId pre [] s = (Inr rs, s1)
             \<and> fst (handleMarkAsWatched env entry userId s1) = Inl e
             \<longrightarrow> (\<exists>s'. markAsWatchedBatch env input userId s = (Inl e, s') \<and> same_tables s s'))
       \<and> ((\<exists>entry \<in> set (b_entries input). w_rating entry = 0)
             \<longrightarrow> markAsWatchedBatch env input userId s = (Inl ZodError, s))"
proof (intro conjI allI impI)
  fix e s'
  assume run: "markAsWatchedBatch env input userId s = (Inl e, s')"
  show "same_tables s s'"
  proof (cases "MarkAsWatchedBatchSchema input")
    case False
    with run show ?thesis
      by (simp add: markAsWatchedBatch_def same_tables_def)
  next
    case True
    with run assms
    have "transaction (transactional_loop env userId (b_entries input) []) s = (Inl e, s')"
      by (auto simp: markAsWatchedBatch_def split: prod.splits sum.splits)
    then show ?thesis by (rule transaction_rollback)
  qed
next
  fix pre entry post rs s1 e
  assume h: "MarkAsWatchedBatchSchema input
             \<and> b_entries input = pre @ entry # post
             \<and> transactional_loop env userId pre [] s = (Inr rs, s1)
             \<and> fst (handleMarkAsWatched env entry userId s1) = Inl e"
  then obtain s2 where thrown: "handleMarkAsWatched env entry userId s1 = (Inl e, s2)"
    by (cases "handleMarkAsWatched env entry userId s1") auto
  have "transactional_loop env userId (pre @ entry # post) [] s = (Inl e, s2)"
    using h thrown by (simp add: transactional_loop_append)
  then have "fst (transaction (transactional_loop env userId (b_entries input) []) s) = Inl e"
    using h by (simp add: transaction_fst)
  then obtain s' where tx: "transaction (transactional_loop env userId (b_entries input) []) s = (Inl e, s')"
    by (cases "transaction (transactional_loop env userId (b_entries input) []) s") auto
  then have "markAsWatchedBatch env input userId s = (Inl e, s')"
    using h assms by (simp add: markAsWatchedBatch_def)
  moreover have "same_tables s s'"
    using tx by (rule transaction_rollback)
  ultimately show "\<exists>s'. markAsWatchedBatch env input userId s = (Inl e, s') \<and> same_tables s s'"
    by blast
next
  assume "\<exists>entry \<in> set (b_entries input). w_rating entry = 0"
  then have "\<not> MarkAsWatchedBatchSchema input"
    using batch_schema_rating by blast
  then show "markAsWatchedBatch env input userId s = (Inl ZodError, s)"
    by (simp add: markAsWatchedBatch_def)
qed

text \<open>
  The example of C4: the first entry is marked inside the transaction, the second throws
  (film 999 is not released yet), and no row of the batch remains.
\<close>

theorem transactional_batch_atomic_witness:
  "validated_transaction (example_batch None 999)
   \<and> validated_transaction (example_batch None 12)
   \<and> MarkAsWatchedBatchSchema (example_batch None 999)
   \<and> (\<exists>rs s1 e s'.
         transactional_loop example_env 1 [\<lparr> w_tmdb_id = 11, w_rating = 4, w_notes = None \<rparr>] [] empty_db
           = (Inr rs, s1)
         \<and> isWatched 1 1 s1
         \<and> fst (handleMarkAsWatched example_env \<lparr> w_tmdb_id = 999, w_rating = 3, w_notes = None \<rparr> 1 s1) = Inl e
         \<and> markAsWatchedBatch example_env (example_batch None 999) 1 empty_db = (Inl e, s')
         \<and> same_tables empty_db s' \<and> watched s' = [])
   \<and> (\<exists>entry \<in> set (b_entries (example_batch None 12)). w_rating entry = 0)
   \<and> markAsWatchedBatch example_env (example_batch None 12) 1 empty_db = (Inl ZodError, empty_db)"
proof -
  let ?e1 = "\<lparr> w_tmdb_id = 11, w_rating = 4, w_notes = None \<rparr>"
  let ?e2 = "\<lparr> w_tmdb_id = 999, w_rating = 3, w_notes = None \<rparr>"
  let ?e3 = "\<lparr> w_tmdb_id = 13, w_rating = 5, w_notes = None \<rparr>"
  let ?s1 = "\<lparr> movies = [\<lparr> m_id = 1, m_tmdb_id = 11, m_title = ''Film'' \<rparr>], movies_id_seq = 2,
               watchlist = [],
               watched = [\<lparr> wd_user_id = 1, wd_movie_id = 1, wd_rating = 4, wd_notes = None \<rparr>],
               preferences = [] \<rparr>"
  let ?rs = "[\<lparr> bi_tmdb_id = 11, bi_success = True, bi_message = ''Movie marked as watched.'' \<rparr>]"
  let ?e = "Error (not_released_message ''Film'')"
  have flag: "validated_transaction (example_batch None 999)"
    and flag': "validated_transaction (example_batch None 12)"
    by (simp_all add: validated_transaction_def example_batch_def)
  have valid: "MarkAsWatchedBatchSchema (example_batch None 999)"
    by code_simp
  have entries: "b_entries (example_batch None 999) = [?e1] @ ?e2 # [?e3]"
    by (simp add: example_batch_def)
  have pre: "transactional_loop example_env 1 [?e1] [] empty_db = (Inr ?rs, ?s1)"
    by code_simp
  have thrown: "fst (handleMarkAsWatched example_env ?e2 1 ?s1) = Inl ?e"
    by code_simp
  have watched1: "isWatched 1 1 ?s1"
    by (simp add: isWatched_def)
  from transactional_batch_atomic[OF flag, of example_env 1 empty_db] valid entries pre thrown
  obtain s' where run: "markAsWatchedBatch example_env (example_batch None 999) 1 empty_db = (Inl ?e, s')"
    and same: "same_tables empty_db s'"
    by blast
  from same have none: "watched s' = []"
    by (simp add: same_tables_def empty_db_def)
  have zero: "\<exists>entry \<in> set (b_entries (example_batch None 12)). w_rating entry = 0"
    by (simp add: example_batch_def)
  from transactional_batch_atomic[OF flag', of example_env 1 empty_db] zero
  have rejected: "markAsWatchedBatch example_env (example_batch None 12) 1 empty_db = (Inl ZodError, empty_db)"
    by blast
  from flag flag' valid pre watched1 thrown run same none zero rejected
  show ?thesis
    by - (intro conjI exI[of _ ?rs] exI[of _ ?s1] exI[of _ ?e] exI[of _ s'], assumption+)
qed

section \<open>The watchlist and watched state machine\<close>

text \<open>
  What the insert branch of \<open>handleMarkAsWatched\<close> guarantees: when the call succeeds with
  any message but that of the update branch, the pair it marked has a watched row and no
  watchlist row.
\<close>

lemma delete_watchlist_clears:
  "\<not> isInWatchlist userId movieId (snd (delete_watchlist userId movieId s))"
  by (simp add: delete_watchlist_def isInWatchlist_def filter_empty_conv)

lemma delete_watchlist_watched:
  "watched (snd (delete_watchlist userId movieId s)) = watched s"
  by (simp add: delete_watchlist_def)

lemma insert_watched_present:
  "insert_watched userId movieId r n s = (Inr u, s') \<Longrightarrow> isWatched userId movieId s'"
  by (auto simp: insert_watched_def isWatched_def split: if_splits)

lemma handleMarkAsWatched_insert_branch:
  assumes "handleMarkAsWatched env input userId s = (Inr r, s')"
      and "message r \<noteq> ''Updated watch record with new rating.''"
  shows "\<exists>movieId. isWatched userId movieId s' \<and> \<not> isInWatchlist userId movieId s'"
proof -
  from assms obtain movieId s1 s2 u where
    ins: "insert_watched userId movieId (w_rating input) (or_null (w_notes input)) s1 = (Inr u, s2)"
    and fin: "s' = snd (delete_watchlist userId movieId s2)"
    by (auto simp: handleMarkAsWatched_def Let_def
             split: sum.splits if_splits prod.splits list.splits option.splits)
  have "isWatched userId movieId s2"
    using ins by (rule insert_watched_present)
  then have "isWatched userId movieId s'"
    by (simp add: fin isWatched_def delete_watchlist_watched)
  moreover have "\<not> isInWatchlist userId movieId s'"
    unfolding fin by (rule delete_watchlist_clears)
  ultimately show ?thesis by blast
qed

text \<open>
  C1 (mutual exclusion of WatchlistEntry and WatchedEntry) does not hold of the code.
  \<open>handleAddToWatchlist\<close> never looks at the \<open>watched\<close> table, so marking film 550 as
  watched and then adding it to the watchlist, starting from the empty store, succeeds
  twice and leaves both a watchlist row and a watched row for the same user and film.
\<close>

theorem mutual_exclusion_broken:
  "fst (markAsWatched example_env (mark_550 4) 1 empty_db)
     = ToolResult \<lparr> success = True, message = ''Movie marked as watched.'' \<rparr>
   \<and> fst (addToWatchlist example_env add_550 1
             (snd (markAsWatched example_env (mark_550 4) 1 empty_db)))
       = ToolResult \<lparr> success = True, message = ''Movie added to watchlist successfully'' \<rparr>
   \<and> isInWatchlist 1 1 watched_then_added \<and> isWatched 1 1 watched_then_added"
  by code_simp

text \<open>
  C3 (a successful \<open>markAsWatched\<close> leaves no WatchlistEntry for the pair) holds of the
  insert branch and does not hold of the update branch. In the state reached above,
  marking film 550 again succeeds through the update branch, which returns before the
  \<open>DELETE FROM watchlist\<close>: the watchlist row is still there.
\<close>

theorem markAsWatched_update_keeps_watchlist:
  "fst (markAsWatched example_env (mark_550 5) 1 watched_then_added)
     = ToolResult \<lparr> success = True, message = ''Updated watch record with new rating.'' \<rparr>
   \<and> isInWatchlist 1 1 (snd (markAsWatched example_env (mark_550 5) 1 watched_then_added))"
  by code_simp

text \<open>
  C8, as stated, fails where no MediaRecord exists for the identifier: the handler throws
  \<open>Movie not found in database\<close> and the tool answers with an error response.
\<close>

theorem removeFromWatchlist_unknown_movie_counterexample:
  "select_movie 550 empty_db = []
   \<and> removeFromWatchlist \<lparr> r_tmdb_id = 550 \<rparr> 1 empty_db
       = (ToolError ''Failed to remove from watchlist: Movie not found in database'', empty_db)"
  by (simp add: select_movie_def isInWatchlist_def empty_db_def removeFromWatchlist_def withToolHandler_def RemoveFromWatchlistSchema_def handleRemoveFromWatchlist_def)

text \<open>
  C8, amended. For an input the schema accepts: when no MediaRecord exists for the
  identifier the answer is the error response above and the store is unchanged; when one
  exists the answer is never an error, its \<open>success\<close> flag reports whether a WatchlistEntry
  was present, afterwards none is present for the pair, and nothing else changes.
\<close>

theorem removeFromWatchlist_amended:
  assumes "RemoveFromWatchlistSchema input"
  shows "(select_movie (r_tmdb_id input) s = [] \<longrightarrow>
            removeFromWatchlist input userId s
              = (ToolError ''Failed to remove from watchlist: Movie not found in database'', s))
       \<and> (\<forall>row rest. select_movie (r_tmdb_id input) s = row # rest \<longrightarrow>
            (\<exists>res s'. removeFromWatchlist input userId s = (ToolResult res, s')
               \<and> success res = isInWatchlist userId (m_id row) s
               \<and> \<not> isInWatchlist userId (m_id row) s'
               \<and> watchlist s' =
                   filter (\<lambda>r. \<not> (wl_user_id r = userId \<and> wl_movie_id r = m_id row)) (watchlist s)
               \<and> movies s' = movies s \<and> watched s' = watched s
               \<and> preferences s' = preferences s))"
  using assms
  by (auto simp: removeFromWatchlist_def withToolHandler_def handleRemoveFromWatchlist_def
                 delete_watchlist_def isInWatchlist_def Let_def
           split: list.splits)

text \<open>
  Both cases of the amended C8 at film 550: unknown in the empty store; known and on the
  watchlist after \<open>addToWatchlist\<close>, where the first removal reports success and a second
  one reports that nothing was removed, without an error.
\<close>

theorem removeFromWatchlist_amended_witness:
  "RemoveFromWatchlistSchema \<lparr> r_tmdb_id = 550 \<rparr>
   \<and> select_movie 550 empty_db = []
   \<and> removeFromWatchlist \<lparr> r_tmdb_id = 550 \<rparr> 1 empty_db
       = (ToolError ''Failed to remove from watchlist: Movie not found in database'', empty_db)
   \<and> (\<exists>row rest res s'.
         select_movie 550 only_added = row # rest
         \<and> isInWatchlist 1 (m_id row) only_added
         \<and> removeFromWatchlist \<lparr> r_tmdb_id = 550 \<rparr> 1 only_added = (ToolResult res, s')
         \<and> success res
         \<and> \<not> isInWatchlist 1 (m_id row) s'
         \<and> (\<exists>res2 s2. removeFromWatchlist \<lparr> r_tmdb_id = 550 \<rparr> 1 s' = (ToolResult res2, s2)
               \<and> \<not> success res2 \<and> watchlist s2 = watchlist s'))"
proof -
  let ?input = "\<lparr> r_tmdb_id = 550 \<rparr>"
  let ?row = "\<lparr> m_id = 1, m_tmdb_id = 550, m_title = ''Film'' \<rparr>"
  have valid: "RemoveFromWatchlistSchema ?input"
    by (simp add: RemoveFromWatchlistSchema_def)
  have none: "select_movie 550 empty_db = []"
    by (simp add: select_movie_def empty_db_def)
  have some: "select_movie 550 only_added = ?row # []"
    by code_simp
  have present: "isInWatchlist 1 (m_id ?row) only_added"
    by code_simp
  from removeFromWatchlist_amended[OF valid, of empty_db 1] none
  have err: "removeFromWatchlist ?input 1 empty_db
       = (ToolError ''Failed to remove from watchlist: Movie not found in database'', empty_db)"
    by (simp only: simp_thms RemoveFromWatchlistInput.simps)
  have some_sel: "select_movie (r_tmdb_id ?input) only_added = ?row # []"
    using some by (simp only: RemoveFromWatchlistInput.simps)
  from removeFromWatchlist_amended[OF valid, of only_added 1, THEN conjunct2, rule_format, OF some_sel]
  obtain res s' where run: "removeFromWatchlist ?input 1 only_added = (ToolResult res, s')"
    and res: "success res = isInWatchlist 1 (m_id ?row) only_added"
    and gone: "\<not> isInWatchlist 1 (m_id ?row) s'"
    and mv: "movies s' = movies only_added"
    by blast
  from res present have ok: "success res" by simp
  have some': "select_movie 550 s' = ?row # []"
    using some mv by (simp add: select_movie_def)
  have some_sel': "select_movie (r_tmdb_id ?input) s' = ?row # []"
    using some' by (simp only: RemoveFromWatchlistInput.simps)
  from removeFromWatchlist_amended[OF valid, of s' 1, THEN conjunct2, rule_format, OF some_sel']
  obtain res2 s2 where run2: "removeFromWatchlist ?input 1 s' = (ToolResult res2, s2)"
    and res2: "success res2 = isInWatchlist 1 (m_id ?row) s'"
    and wl2: "watchlist s2 =
                filter (\<lambda>r. \<not> (wl_user_id r = 1 \<and> wl_movie_id r = m_id ?row)) (watchlist s')"
    by blast
  from res2 gone have no: "\<not> success res2" by simp
  from gone have same: "watchlist s2 = watchlist s'"
    unfolding wl2 isInWatchlist_def
    by (simp add: filter_empty_conv)
  have inner: "\<exists>res2 s2. removeFromWatchlist ?input 1 s' = (ToolResult res2, s2)
               \<and> \<not> success res2 \<and> watchlist s2 = watchlist s'"
    using run2 no same by blast
  have "\<exists>row rest res s'.
         select_movie 550 only_added = row # rest
         \<and> isInWatchlist 1 (m_id row) only_added
         \<and> removeFromWatchlist ?input 1 only_added = (ToolResult res, s')
         \<and> success res
         \<and> \<not> isInWatchlist 1 (m_id row) s'
         \<and> (\<exists>res2 s2. removeFromWatchlist ?input 1 s' = (ToolResult res2, s2)
               \<and> \<not> success res2 \<and> watchlist s2 = watchlist s')"
    apply (rule exI[of _ ?row], rule exI[of _ "[]"], rule exI[of _ res], rule exI[of _ s'])
    apply (intro conjI)
    apply (rule some present run ok gone inner)+
    done
  with valid none err show ?thesis
    by (intro conjI)
qed

section \<open>Preference tools: facts about the model\<close>

lemma merge_names_filter:
  "merge_names existingNames newNames merged =
     merged @ filter (\<lambda>n. n \<notin> set existingNames) newNames"
  by (induction newNames arbitrary: merged) auto

lemma set_preferences_loop_fst [simp]:
  "fst (set_preferences_loop userId prefs s) = Inr ()"
  by (induction prefs arbitrary: s) auto

lemma set_preferences_loop_append:
  "set_preferences_loop userId (ps @ qs) s =
     set_preferences_loop userId qs (snd (set_preferences_loop userId ps s))"
  by (induction ps arbitrary: s) auto

lemma transaction_set_preferences_loop:
  "transaction (set_preferences_loop userId prefs) s =
     (Inr (), snd (set_preferences_loop userId prefs s))"
proof -
  obtain r s' where run: "set_preferences_loop userId prefs s = (r, s')"
    by (cases "set_preferences_loop userId prefs s")
  with set_preferences_loop_fst[of userId prefs s] have "r = Inr ()" by simp
  with run show ?thesis by (simp add: transaction_def)
qed

lemma map_of_filter_key [simp]:
  "map_of (filter (\<lambda>e. fst e \<noteq> k) entries) k = None"
  by (induction entries) auto

lemma store_command_sent [simp]: "store (command_sent sys) = store sys"
  by (simp add: command_sent_def)

lemma redis_command_sent [simp]: "redis (command_sent sys) = redis sys"
  by (simp add: command_sent_def)

lemma store_deleteCached [simp]: "store (deleteCached k sys) = store sys"
  by (auto simp: deleteCached_def split: option.splits)

lemma store_setCached [simp]: "store (setCached k v ttl sys) = store sys"
  by (auto simp: setCached_def split: option.splits)

lemma store_getCached [simp]: "store (snd (getCached k sys)) = store sys"
  by (auto simp: getCached_def split: option.splits)

lemma store_getPreferences [simp]:
  "store (snd (getPreferences env userId sys)) = store sys"
proof -
  obtain cached sys1 where got: "getCached (cacheKey userId) sys = (cached, sys1)"
    by (cases "getCached (cacheKey userId) sys")
  have "store sys1 = store sys"
    using store_getCached[of "cacheKey userId" sys] got by simp
  then show ?thesis
    by (cases cached) (simp_all add: getPreferences_def got Let_def)
qed

text \<open>
  A \<open>setPreferences\<close> call that passes the schema and has a user completes, whatever the
  cache does, and leaves in the store what its loop leaves.
\<close>

lemma handleSetPreferences_run:
  assumes "userId \<noteq> 0"
  shows "handleSetPreferences env input userId sys =
           (Inr \<lparr> res_message =
                    ''Successfully set '' @ number_to_string (int (length (sp_preferences input)))
                      @ '' preference'' @ (if length (sp_preferences input) \<noteq> 1 then ''s'' else []),
                  res_structuredContent =
                    fst (getPreferences env userId
                           (deleteCached (cacheKey userId)
                              (sys\<lparr> store := snd (set_preferences_loop userId (sp_preferences input)
                                                      (store sys)) \<rparr>))) \<rparr>,
            snd (getPreferences env userId
                   (deleteCached (cacheKey userId)
                      (sys\<lparr> store := snd (set_preferences_loop userId (sp_preferences input)
                                              (store sys)) \<rparr>))))"
  using assms
  by (simp add: handleSetPreferences_def transaction_set_preferences_loop Let_def
           split: prod.splits)

lemma setPreferences_call:
  assumes "SetPreferencesSchema input" and "userId \<noteq> 0"
  shows "\<exists>r. setPreferences env input userId sys =
               (ToolResult r,
                snd (getPreferences env userId
                       (deleteCached (cacheKey userId)
                          (sys\<lparr> store := snd (set_preferences_loop userId (sp_preferences input)
                                                  (store sys)) \<rparr>))))
           \<and> res_structuredContent r =
               fst (getPreferences env userId
                      (deleteCached (cacheKey userId)
                         (sys\<lparr> store := snd (set_preferences_loop userId (sp_preferences input)
                                                 (store sys)) \<rparr>)))"
  using assms(1)
  by (simp add: setPreferences_def withToolHandler_def handleSetPreferences_run[OF assms(2)])

lemma setPreferences_run:
  assumes "SetPreferencesSchema input" and "userId \<noteq> 0"
  shows "\<exists>r sys'. setPreferences env input userId sys = (ToolResult r, sys')
           \<and> store sys' = snd (set_preferences_loop userId (sp_preferences input) (store sys))"
proof -
  from setPreferences_call[OF assms, of env sys]
  obtain r where
    "setPreferences env input userId sys =
       (ToolResult r,
        snd (getPreferences env userId
               (deleteCached (cacheKey userId)
                  (sys\<lparr> store := snd (set_preferences_loop userId (sp_preferences input) (store sys)) \<rparr>))))"
    by blast
  then show ?thesis
    by (intro exI conjI) (assumption, simp)
qed


lemma select_preference_upsert [simp]:
  "select_preference userId k (upsert_preference userId k v s) =
     [\<lparr> p_user_id = userId, p_key = k, p_value = v \<rparr>]"
  by (simp add: select_preference_def upsert_preference_def filter_empty_conv)

lemma single_preference_run:
  assumes "userId \<noteq> 0" and "k \<noteq> []"
  shows "\<exists>r sys'. setPreferences env (single_preference k v) userId sys = (ToolResult r, sys')
           \<and> select_preference userId k (store sys') =
               [\<lparr> p_user_id = userId, p_key = k,
                  p_value = normalizedValue userId \<lparr> sp_key = k, sp_value = v \<rparr> (store sys) \<rparr>]"
proof -
  have valid: "SetPreferencesSchema (single_preference k v)"
    using assms(2) by (simp add: SetPreferencesSchema_def single_preference_def)
  from setPreferences_run[OF valid assms(1), of env sys]
  obtain r sys' where run: "setPreferences env (single_preference k v) userId sys = (ToolResult r, sys')"
    and st: "store sys' =
               snd (set_preferences_loop userId (sp_preferences (single_preference k v)) (store sys))"
    by blast
  show ?thesis
    by (rule exI[of _ r], rule exI[of _ sys'], rule conjI, rule run)
       (simp add: st single_preference_def)
qed

lemma normalizedValue_genres:
  "normalizedValue userId \<lparr> sp_key = ''favorite_genres'', sp_value = JArray incoming \<rparr> s =
     JArray (existingArray userId ''favorite_genres'' s @
             filter (\<lambda>x. String x \<notin> set (map String (existingArray userId ''favorite_genres'' s)))
               incoming)"
  by (simp add: normalizedValue_def Let_def)

lemma normalizedValue_people:
  assumes "person_key k"
  shows "normalizedValue userId \<lparr> sp_key = k, sp_value = JArray incoming \<rparr> s =
     JArray (map JString
        (normalizePersonNames (existingArray userId k s) @
         filter (\<lambda>n. n \<notin> set (normalizePersonNames (existingArray userId k s)))
           (normalizePersonNames incoming)))"
  using assms by (auto simp: normalizedValue_def Let_def person_key_def merge_names_filter)

lemma normalizedValue_verbatim:
  assumes "\<not> list_valued_key k \<or> \<not> isArray v"
  shows "normalizedValue userId \<lparr> sp_key = k, sp_value = v \<rparr> s = v"
  using assms by (auto simp: normalizedValue_def Let_def list_valued_key_def)

lemma select_preference_upsert_other:
  "k' \<noteq> k \<Longrightarrow>
     select_preference userId k (upsert_preference userId k' v s) = select_preference userId k s"
  by (auto simp: select_preference_def upsert_preference_def intro: filter_cong)

lemma set_preferences_loop_other_keys:
  "k \<notin> set (map sp_key prefs) \<Longrightarrow>
     select_preference userId k (snd (set_preferences_loop userId prefs s)) =
       select_preference userId k s"
  by (induction prefs arbitrary: s) (auto simp: select_preference_upsert_other)

lemma existingArray_cong:
  "select_preference userId k s = select_preference userId k s' \<Longrightarrow>
     existingArray userId k s = existingArray userId k s'"
  by (simp add: existingArray_def)

lemma normalizedValue_cong:
  assumes "select_preference userId (sp_key p) s = select_preference userId (sp_key p) s'"
  shows "normalizedValue userId p s = normalizedValue userId p s'"
proof -
  have same: "existingArray userId (sp_key p) s = existingArray userId (sp_key p) s'"
    using assms by (rule existingArray_cong)
  show ?thesis
    unfolding normalizedValue_def same by (rule refl)
qed

lemma setPreferences_key_once:
  assumes user: "userId \<noteq> 0" and valid: "SetPreferencesSchema input"
      and split: "sp_preferences input = pre @ p # post"
      and once: "sp_key p \<notin> set (map sp_key (pre @ post))"
  shows "\<exists>r sys'. setPreferences env input userId sys = (ToolResult r, sys')
           \<and> select_preference userId (sp_key p) (store sys') =
               [\<lparr> p_user_id = userId, p_key = sp_key p,
                  p_value = normalizedValue userId p (store sys) \<rparr>]"
proof -
  define s_pre where "s_pre = snd (set_preferences_loop userId pre (store sys))"
  define d where "d = snd (set_preferences_loop userId (sp_preferences input) (store sys))"
  have same: "select_preference userId (sp_key p) s_pre = select_preference userId (sp_key p) (store sys)"
    unfolding s_pre_def using once by (intro set_preferences_loop_other_keys) simp
  have "d = snd (set_preferences_loop userId post
                   (upsert_preference userId (sp_key p) (normalizedValue userId p s_pre) s_pre))"
    unfolding d_def split s_pre_def by (simp add: set_preferences_loop_append)
  then have "select_preference userId (sp_key p) d =
               select_preference userId (sp_key p)
                 (upsert_preference userId (sp_key p) (normalizedValue userId p s_pre) s_pre)"
    using once by (simp add: set_preferences_loop_other_keys)
  then have stored: "select_preference userId (sp_key p) d =
      [\<lparr> p_user_id = userId, p_key = sp_key p, p_value = normalizedValue userId p (store sys) \<rparr>]"
    using normalizedValue_cong[OF same] by simp
  from setPreferences_run[OF valid user, of env sys]
  obtain r sys' where "setPreferences env input userId sys = (ToolResult r, sys')"
    and "store sys' = d"
    unfolding d_def by blast
  then show ?thesis
    using stored by (intro exI conjI) (assumption, simp)
qed

section \<open>The preference merge\<close>

text \<open>
  What a \<open>setPreferences\<close> call stores for an array given for a list-valued key (the key
  occurring once among the pairs of the call): the existing list, followed by the incoming
  elements whose canonical string does not occur among the canonical strings of the
  existing list, each part in its own order. For \<open>favorite_genres\<close> the canonical string of
  an element is \<open>String(element)\<close> and the elements are stored as they are; for the two
  person keys it is \<open>normalizePersonName(element)\<close> and every element is stored as that
  string. The incoming elements are tested against the existing list only.
\<close>

lemma merge_stored:
  assumes "userId \<noteq> 0" and "SetPreferencesSchema input"
      and "sp_preferences input = pre @ \<lparr> sp_key = k, sp_value = JArray incoming \<rparr> # post"
      and "k \<notin> set (map sp_key (pre @ post))"
  shows "\<exists>r sys'. setPreferences env input userId sys = (ToolResult r, sys')
       \<and> (k = ''favorite_genres'' \<longrightarrow>
            select_preference userId k (store sys') =
              [\<lparr> p_user_id = userId, p_key = k,
                 p_value = JArray (existingArray userId k (store sys) @
                   filter (\<lambda>x. String x \<notin> set (map String (existingArray userId k (store sys))))
                     incoming) \<rparr>])
       \<and> (person_key k \<longrightarrow>
            select_preference userId k (store sys') =
              [\<lparr> p_user_id = userId, p_key = k,
                 p_value = JArray (map JString
                   (normalizePersonNames (existingArray userId k (store sys)) @
                    filter (\<lambda>n. n \<notin> set (normalizePersonNames (existingArray userId k (store sys))))
                      (normalizePersonNames incoming))) \<rparr>])"
proof -
  let ?p = "\<lparr> sp_key = k, sp_value = JArray incoming \<rparr>"
  have once: "sp_key ?p \<notin> set (map sp_key (pre @ post))"
    using assms(4) by simp
  from setPreferences_key_once[OF assms(1,2,3) once, of env sys]
  obtain r sys' where run: "setPreferences env input userId sys = (ToolResult r, sys')"
    and stored: "select_preference userId k (store sys') =
                   [\<lparr> p_user_id = userId, p_key = k,
                      p_value = normalizedValue userId ?p (store sys) \<rparr>]"
    by auto
  have genres: "k = ''favorite_genres'' \<longrightarrow>
            select_preference userId k (store sys') =
              [\<lparr> p_user_id = userId, p_key = k,
                 p_value = JArray (existingArray userId k (store sys) @
                   filter (\<lambda>x. String x \<notin> set (map String (existingArray userId k (store sys))))
                     incoming) \<rparr>]"
    using stored by (auto simp: normalizedValue_genres)
  have people: "person_key k \<longrightarrow>
            select_preference userId k (store sys') =
              [\<lparr> p_user_id = userId, p_key = k,
                 p_value = JArray (map JString
                   (normalizePersonNames (existingArray userId k (store sys)) @
                    filter (\<lambda>n. n \<notin> set (normalizePersonNames (existingArray userId k (store sys))))
                      (normalizePersonNames incoming))) \<rparr>]"
    using stored by (auto simp: normalizedValue_people)
  from run genres people show ?thesis by blast
qed

text \<open>
  C5 does not hold of the code: the stored list is not deduplicated. A first write of
  \<open>["Action","Action"]\<close> to \<open>favorite_genres\<close> is answered without an error and stores both
  elements, which have the same canonical string; a first write of
  \<open>["Tom Hanks", {name: "Tom Hanks"}]\<close> to \<open>favorite_actors\<close> stores the name twice. An
  incoming element is tested against the existing list only (\<open>existingSet\<close>,
  \<open>existingNames.includes\<close>), never against the elements that the same call has already
  appended, so the result is not the existing elements followed by the incoming elements
  whose canonical string is not already present.
\<close>

theorem preference_merge_keeps_repeats:
  "existingArray 1 ''favorite_genres'' (store initial_system) = []
   \<and> \<not> isError (fst (setPreferences example_env repeated_genre 1 initial_system))
   \<and> select_preference 1 ''favorite_genres''
        (store (snd (setPreferences example_env repeated_genre 1 initial_system))) =
       [\<lparr> p_user_id = 1, p_key = ''favorite_genres'',
          p_value = JArray [JString ''Action'', JString ''Action''] \<rparr>]
   \<and> map String [JString ''Action'', JString ''Action''] = [''Action'', ''Action'']
   \<and> \<not> isError (fst (setPreferences example_env repeated_actor 1 initial_system))
   \<and> select_preference 1 ''favorite_actors''
        (store (snd (setPreferences example_env repeated_actor 1 initial_system))) =
       [\<lparr> p_user_id = 1, p_key = ''favorite_actors'',
          p_value = JArray [JString ''Tom Hanks'', JString ''Tom Hanks''] \<rparr>]"
  by code_simp

section \<open>Writes that are not arrays\<close>

text \<open>
  C10. For a list-valued key and an incoming value that is not an array (the key occurring
  once among the pairs of the call), the merge is skipped: the value computed for the
  write is the incoming value itself, and after the call the row of the key holds exactly
  that value, whatever it held before.
\<close>

theorem non_array_write_replaces:
  assumes "list_valued_key k" and "\<not> isArray v" and "userId \<noteq> 0"
      and "SetPreferencesSchema input"
      and "sp_preferences input = pre @ \<lparr> sp_key = k, sp_value = v \<rparr> # post"
      and "k \<notin> set (map sp_key (pre @ post))"
  shows "normalizedValue userId \<lparr> sp_key = k, sp_value = v \<rparr> (store sys) = v
       \<and> (\<exists>r sys'. setPreferences env input userId sys = (ToolResult r, sys')
             \<and> select_preference userId k (store sys') =
                 [\<lparr> p_user_id = userId, p_key = k, p_value = v \<rparr>])"
proof -
  let ?p = "\<lparr> sp_key = k, sp_value = v \<rparr>"
  have verbatim: "normalizedValue userId ?p (store sys) = v"
    using assms(2) by (simp add: normalizedValue_verbatim)
  have once: "sp_key ?p \<notin> set (map sp_key (pre @ post))"
    using assms(6) by simp
  from setPreferences_key_once[OF assms(3,4,5) once, of env sys] verbatim
  show ?thesis by simp
qed

text \<open>
  The example of C10: \<open>favorite_genres\<close> holds \<open>["Action","Comedy"]\<close>; writing the string
  \<open>"Horror"\<close> leaves the string in its place.
\<close>

theorem non_array_write_replaces_witness:
  "list_valued_key ''favorite_genres'' \<and> \<not> isArray (JString ''Horror'') \<and> (1::int) \<noteq> 0
   \<and> SetPreferencesSchema genres_replaced_example
   \<and> select_preference 1 ''favorite_genres'' (store genres_after_first) =
       [\<lparr> p_user_id = 1, p_key = ''favorite_genres'',
          p_value = JArray [JString ''Action'', JString ''Comedy''] \<rparr>]
   \<and> (\<exists>r sys'. setPreferences example_env genres_replaced_example 1 genres_after_first
                   = (ToolResult r, sys')
         \<and> select_preference 1 ''favorite_genres'' (store sys') =
             [\<lparr> p_user_id = 1, p_key = ''favorite_genres'', p_value = JString ''Horror'' \<rparr>])"
proof -
  have key: "list_valued_key ''favorite_genres''"
    by (simp add: list_valued_key_def)
  have scalar: "\<not> isArray (JString ''Horror'')" by simp
  have user: "(1::int) \<noteq> 0" by simp
  have valid: "SetPreferencesSchema genres_replaced_example"
    by (simp add: SetPreferencesSchema_def genres_replaced_example_def single_preference_def)
  have split: "sp_preferences genres_replaced_example =
                 [] @ \<lparr> sp_key = ''favorite_genres'', sp_value = JString ''Horror'' \<rparr> # []"
    by (simp add: genres_replaced_example_def single_preference_def)
  have once: "''favorite_genres'' \<notin> set (map sp_key ([] @ []))"
    by simp
  have before: "select_preference 1 ''favorite_genres'' (store genres_after_first) =
       [\<lparr> p_user_id = 1, p_key = ''favorite_genres'',
          p_value = JArray [JString ''Action'', JString ''Comedy''] \<rparr>]"
    by code_simp
  from non_array_write_replaces[OF key scalar user valid split once, of genres_after_first example_env]
  have after: "\<exists>r sys'. setPreferences example_env genres_replaced_example 1 genres_after_first
                   = (ToolResult r, sys')
         \<and> select_preference 1 ''favorite_genres'' (store sys') =
             [\<lparr> p_user_id = 1, p_key = ''favorite_genres'', p_value = JString ''Horror'' \<rparr>]"
    by (rule conjunct2)
  from key scalar user valid before after show ?thesis
    by (intro conjI)
qed

section \<open>Cache coherence\<close>












section \<open>Removing a person by name\<close>

lemma removePreferenceItem_run:
  assumes "RemovePreferenceItemSchema input" and "userId \<noteq> 0"
      and "remove_item_callback input userId (store sys) = (Inr msg, d)"
  shows "\<exists>r sys'. removePreferenceItem env input userId sys = (ToolResult r, sys')
           \<and> store sys' = d"
proof -
  have tx: "transaction (remove_item_callback input userId) (store sys) = (Inr msg, d)"
    using assms(3) by (rule transaction_commit)
  obtain answer sys2 where
    got: "getPreferences env userId (deleteCached (cacheKey userId) (sys\<lparr> store := d \<rparr>))
            = (answer, sys2)"
    by (cases "getPreferences env userId (deleteCached (cacheKey userId) (sys\<lparr> store := d \<rparr>))")
  have "store sys2 = d"
    using store_getPreferences[of env userId "deleteCached (cacheKey userId) (sys\<lparr> store := d \<rparr>)"]
    by (simp add: got)
  then show ?thesis
    using assms(1,2)
    by (simp add: removePreferenceItem_def withToolHandler_def handleRemovePreferenceItem_def
          tx got)
qed

lemma select_preference_delete [simp]:
  "select_preference userId k (delete_preference userId k s) = []"
  by (simp add: select_preference_def delete_preference_def filter_empty_conv)

lemma select_preference_update:
  "select_preference userId k s \<noteq> [] \<Longrightarrow>
     select_preference userId k (update_preference userId k v s) =
       [\<lparr> p_user_id = userId, p_key = k, p_value = v \<rparr>]"
  by (simp add: update_preference_def)

lemma filter_strings:
  "filter (\<lambda>x. x \<noteq> JString X) (map JString names) = map JString (filter (\<lambda>n. n \<noteq> X) names)"
  by (induction names) auto

lemma remove_string_item:
  assumes "select_preference userId k s = [\<lparr> p_user_id = userId, p_key = k,
                                              p_value = JArray (map JString names) \<rparr>]"
  shows "\<exists>msg d. remove_item_callback \<lparr> rp_key = k, rp_item = JString X \<rparr> userId s = (Inr msg, d)
           \<and> select_preference userId k d =
               (if filter (\<lambda>n. n \<noteq> X) names = [] then []
                else [\<lparr> p_user_id = userId, p_key = k,
                        p_value = JArray (map JString (filter (\<lambda>n. n \<noteq> X) names)) \<rparr>])"
proof -
  have first: "(case map JString names of first # others \<Rightarrow> has_name first | [] \<Rightarrow> False) = False"
    by (cases names) simp_all
  show ?thesis
    using assms
    by (simp add: remove_item_callback_def filter_item_def Let_def first filter_strings
          select_preference_update)
qed

lemma filter_merged:
  "filter (\<lambda>n. n \<noteq> X) (names @ filter (\<lambda>n. n \<notin> set names) [X]) = filter (\<lambda>n. n \<noteq> X) names"
  by simp

text \<open>
  C6. The three shapes of a name (the bare string, \<open>{name: X}\<close> and \<open>{name: {name: X}}\<close>) all
  normalise to \<open>X\<close>. For every representation that normalises to \<open>X\<close>, writing it to
  \<open>favorite_actors\<close> and then removing the item \<open>X\<close> succeeds twice. Between the two calls
  the row of \<open>favorite_actors\<close> holds, as strings, the names the list held before, followed
  by \<open>X\<close> unless it was among them: whichever the representation, \<open>X\<close> is stored as the
  string \<open>X\<close>. After the removal the row holds exactly the names other than \<open>X\<close> that the
  list held before; when none is left, in particular when there was no list before, the
  row of \<open>favorite_actors\<close> is gone.
\<close>

theorem person_name_removal:
  assumes "userId \<noteq> 0"
  shows "normalizePersonName (JString X) = X
       \<and> normalizePersonName (JObject [(''name'', JString X)]) = X
       \<and> normalizePersonName (JObject [(''name'', JObject [(''name'', JString X)])]) = X
       \<and> (\<forall>repr. normalizePersonName repr = X \<longrightarrow>
            (\<exists>r1 sys1 r2 sys2.
               setPreferences env (single_preference ''favorite_actors'' (JArray [repr])) userId sys
                 = (ToolResult r1, sys1)
               \<and> removePreferenceItem env \<lparr> rp_key = ''favorite_actors'', rp_item = JString X \<rparr>
                    userId sys1 = (ToolResult r2, sys2)
               \<and> (let names = normalizePersonNames
                                 (existingArray userId ''favorite_actors'' (store sys));
                       stored = names @ filter (\<lambda>n. n \<notin> set names) [X];
                       remaining = filter (\<lambda>n. n \<noteq> X) names
                   in select_preference userId ''favorite_actors'' (store sys1) =
                        [\<lparr> p_user_id = userId, p_key = ''favorite_actors'',
                           p_value = JArray (map JString stored) \<rparr>]
                      \<and> X \<in> set stored
                      \<and> select_preference userId ''favorite_actors'' (store sys2) =
                          (if remaining = [] then []
                           else [\<lparr> p_user_id = userId, p_key = ''favorite_actors'',
                                   p_value = JArray (map JString remaining) \<rparr>])
                      \<and> X \<notin> set remaining)))"
proof (intro conjI allI impI)
  show "normalizePersonName (JString X) = X"
    by (simp add: normalizePersonName_def)
  show "normalizePersonName (JObject [(''name'', JString X)]) = X"
    by (simp add: normalizePersonName_def)
  show "normalizePersonName (JObject [(''name'', JObject [(''name'', JString X)])]) = X"
    by (simp add: normalizePersonName_def)
next
  fix repr
  assume canon: "normalizePersonName repr = X"
  define names where "names = normalizePersonNames (existingArray userId ''favorite_actors'' (store sys))"
  define merged where "merged = names @ filter (\<lambda>n. n \<notin> set names) [X]"
  have pk: "person_key ''favorite_actors''" by (simp add: person_key_def)
  from single_preference_run[OF assms, of "''favorite_actors''" env "JArray [repr]" sys]
  obtain r1 sys1 where
    set: "setPreferences env (single_preference ''favorite_actors'' (JArray [repr])) userId sys
            = (ToolResult r1, sys1)"
    and stored: "select_preference userId ''favorite_actors'' (store sys1) =
                   [\<lparr> p_user_id = userId, p_key = ''favorite_actors'',
                      p_value = JArray (map JString merged) \<rparr>]"
    by (auto simp: normalizedValue_people[OF pk] normalizePersonNames_def canon names_def merged_def)
  from remove_string_item[OF stored, of X]
  obtain msg d where
    callback: "remove_item_callback \<lparr> rp_key = ''favorite_actors'', rp_item = JString X \<rparr> userId (store sys1)
                 = (Inr msg, d)"
    and after: "select_preference userId ''favorite_actors'' d =
               (if filter (\<lambda>n. n \<noteq> X) merged = [] then []
                else [\<lparr> p_user_id = userId, p_key = ''favorite_actors'',
                        p_value = JArray (map JString (filter (\<lambda>n. n \<noteq> X) merged)) \<rparr>])"
    by blast
  have valid: "RemovePreferenceItemSchema \<lparr> rp_key = ''favorite_actors'', rp_item = JString X \<rparr>"
    by (simp add: RemovePreferenceItemSchema_def)
  from removePreferenceItem_run[OF valid assms callback, of env]
  obtain r2 sys2 where
    remove: "removePreferenceItem env \<lparr> rp_key = ''favorite_actors'', rp_item = JString X \<rparr>
               userId sys1 = (ToolResult r2, sys2)"
    and st: "store sys2 = d"
    by blast
  have remaining: "filter (\<lambda>n. n \<noteq> X) merged = filter (\<lambda>n. n \<noteq> X) names"
    unfolding merged_def by (rule filter_merged)
  have present: "X \<in> set merged"
    by (simp add: merged_def)
  have final: "let names = normalizePersonNames
                             (existingArray userId ''favorite_actors'' (store sys));
                   stored = names @ filter (\<lambda>n. n \<notin> set names) [X];
                   remaining = filter (\<lambda>n. n \<noteq> X) names
               in select_preference userId ''favorite_actors'' (store sys1) =
                    [\<lparr> p_user_id = userId, p_key = ''favorite_actors'',
                       p_value = JArray (map JString stored) \<rparr>]
                  \<and> X \<in> set stored
                  \<and> select_preference userId ''favorite_actors'' (store sys2) =
                      (if remaining = [] then []
                       else [\<lparr> p_user_id = userId, p_key = ''favorite_actors'',
                               p_value = JArray (map JString remaining) \<rparr>])
                  \<and> X \<notin> set remaining"
    unfolding Let_def names_def[symmetric] merged_def[symmetric] st after remaining
    using stored present by simp
  from set remove final
  show "\<exists>r1 sys1 r2 sys2.
               setPreferences env (single_preference ''favorite_actors'' (JArray [repr])) userId sys
                 = (ToolResult r1, sys1)
               \<and> removePreferenceItem env \<lparr> rp_key = ''favorite_actors'', rp_item = JString X \<rparr>
                    userId sys1 = (ToolResult r2, sys2)
               \<and> (let names = normalizePersonNames
                                 (existingArray userId ''favorite_actors'' (store sys));
                       stored = names @ filter (\<lambda>n. n \<notin> set names) [X];
                       remaining = filter (\<lambda>n. n \<noteq> X) names
                   in select_preference userId ''favorite_actors'' (store sys1) =
                        [\<lparr> p_user_id = userId, p_key = ''favorite_actors'',
                           p_value = JArray (map JString stored) \<rparr>]
                      \<and> X \<in> set stored
                      \<and> select_preference userId ''favorite_actors'' (store sys2) =
                          (if remaining = [] then []
                           else [\<lparr> p_user_id = userId, p_key = ''favorite_actors'',
                                   p_value = JArray (map JString remaining) \<rparr>])
                      \<and> X \<notin> set remaining)"
    by blast
qed

text \<open>
  The example of C6, once for each shape of \<open>Tom Hanks\<close>, starting without a row: the row in
  between holds the one string, and the row is gone at the end.
\<close>

theorem person_name_removal_witness:
  "(1::int) \<noteq> 0
   \<and> select_preference 1 ''favorite_actors'' (store initial_system) = []
   \<and> (\<exists>r1 sys1 r2 sys2.
         setPreferences example_env
           (single_preference ''favorite_actors'' (JArray [JString ''Tom Hanks''])) 1 initial_system
           = (ToolResult r1, sys1)
         \<and> removePreferenceItem example_env
              \<lparr> rp_key = ''favorite_actors'', rp_item = JString ''Tom Hanks'' \<rparr> 1 sys1
             = (ToolResult r2, sys2)
         \<and> select_preference 1 ''favorite_actors'' (store sys1) =
             [\<lparr> p_user_id = 1, p_key = ''favorite_actors'',
                p_value = JArray [JString ''Tom Hanks''] \<rparr>]
         \<and> select_preference 1 ''favorite_actors'' (store sys2) = [])
   \<and> (\<exists>r1 sys1 r2 sys2.
         setPreferences example_env
           (single_preference ''favorite_actors''
              (JArray [JObject [(''name'', JString ''Tom Hanks'')]])) 1 initial_system
           = (ToolResult r1, sys1)
         \<and> removePreferenceItem example_env
              \<lparr> rp_key = ''favorite_actors'', rp_item = JString ''Tom Hanks'' \<rparr> 1 sys1
             = (ToolResult r2, sys2)
         \<and> select_preference 1 ''favorite_actors'' (store sys1) =
             [\<lparr> p_user_id = 1, p_key = ''favorite_actors'',
                p_value = JArray [JString ''Tom Hanks''] \<rparr>]
         \<and> select_preference 1 ''favorite_actors'' (store sys2) = [])
   \<and> (\<exists>r1 sys1 r2 sys2.
         setPreferences example_env
           (single_preference ''favorite_actors''
              (JArray [JObject [(''name'', JObject [(''name'', JString ''Tom Hanks'')])]]))
           1 initial_system
           = (ToolResult r1, sys1)
         \<and> removePreferenceItem example_env
              \<lparr> rp_key = ''favorite_actors'', rp_item = JString ''Tom Hanks'' \<rparr> 1 sys1
             = (ToolResult r2, sys2)
         \<and> select_preference 1 ''favorite_actors'' (store sys1) =
             [\<lparr> p_user_id = 1, p_key = ''favorite_actors'',
                p_value = JArray [JString ''Tom Hanks''] \<rparr>]
         \<and> select_preference 1 ''favorite_actors'' (store sys2) = [])"
proof -
  have user: "(1::int) \<noteq> 0" by simp
  have absent: "select_preference 1 ''favorite_actors'' (store initial_system) = []"
    by code_simp
  have none: "normalizePersonNames (existingArray 1 ''favorite_actors'' (store initial_system)) = []"
    by code_simp
  note removal = person_name_removal[OF user, of "''Tom Hanks''" example_env initial_system,
                                     unfolded Let_def none]
  from removal have shapes:
    "normalizePersonName (JString ''Tom Hanks'') = ''Tom Hanks''"
    "normalizePersonName (JObject [(''name'', JString ''Tom Hanks'')]) = ''Tom Hanks''"
    "normalizePersonName (JObject [(''name'', JObject [(''name'', JString ''Tom Hanks'')])]) = ''Tom Hanks''"
    by blast+
  from removal have step:
    "\<And>repr. normalizePersonName repr = ''Tom Hanks'' \<Longrightarrow>
       \<exists>r1 sys1 r2 sys2.
         setPreferences example_env (single_preference ''favorite_actors'' (JArray [repr])) 1 initial_system
           = (ToolResult r1, sys1)
         \<and> removePreferenceItem example_env
              \<lparr> rp_key = ''favorite_actors'', rp_item = JString ''Tom Hanks'' \<rparr> 1 sys1
             = (ToolResult r2, sys2)
         \<and> select_preference 1 ''favorite_actors'' (store sys1) =
             [\<lparr> p_user_id = 1, p_key = ''favorite_actors'',
                p_value = JArray [JString ''Tom Hanks''] \<rparr>]
         \<and> select_preference 1 ''favorite_actors'' (store sys2) = []"
    by simp
  from user absent step[OF shapes(1)] step[OF shapes(2)] step[OF shapes(3)]
  show ?thesis
    by (intro conjI)
qed

section \<open>The life cycle of a list-valued key\<close>

text \<open>
  C7, as stated, fails for the very call it names: \<open>setPreferences\<close> with an empty array
  for a list-valued key that has no row stores the empty list (the handler upserts every
  key it is given and has no branch that deletes).
\<close>

theorem empty_list_row_counterexample:
  "select_preference 1 ''favorite_genres'' (store empty_genres_written) =
     [\<lparr> p_user_id = 1, p_key = ''favorite_genres'', p_value = JArray [] \<rparr>]
   \<and> \<not> no_empty_list (store empty_genres_written)"
  by code_simp

lemma normalizedValue_empty_iff:
  assumes "list_valued_key (sp_key p)"
  shows "(normalizedValue userId p s = JArray []) = stores_empty_list userId p s"
proof (cases "isArray (sp_value p)")
  case False
  then have "normalizedValue userId p s = sp_value p"
    by (auto simp: normalizedValue_def Let_def)
  moreover have "sp_value p \<noteq> JArray []"
    using False by auto
  ultimately show ?thesis
    by (simp add: stores_empty_list_def)
next
  case True
  then obtain incoming where inc: "sp_value p = JArray incoming"
    by (cases "sp_value p") auto
  have p_eq: "p = \<lparr> sp_key = sp_key p, sp_value = JArray incoming \<rparr>"
    using inc by (cases p) simp
  show ?thesis
  proof (cases "person_key (sp_key p)")
    case True
    have "(normalizePersonNames (existingArray userId (sp_key p) s) @
            filter (\<lambda>n. n \<notin> set (normalizePersonNames (existingArray userId (sp_key p) s)))
              (normalizePersonNames incoming) = [])
          = (incoming = [] \<and> existingArray userId (sp_key p) s = [])"
      by (cases "existingArray userId (sp_key p) s") (auto simp: normalizePersonNames_def)
    then show ?thesis
      using assms
      by (subst p_eq) (simp add: normalizedValue_people[OF True] stores_empty_list_def inc)
  next
    case False
    with assms have genres: "sp_key p = ''favorite_genres''"
      by (auto simp: list_valued_key_def person_key_def)
    have "(existingArray userId ''favorite_genres'' s @
            filter (\<lambda>x. String x \<notin> set (map String (existingArray userId ''favorite_genres'' s)))
              incoming = [])
          = (incoming = [] \<and> existingArray userId ''favorite_genres'' s = [])"
      by (cases "existingArray userId ''favorite_genres'' s") auto
    then show ?thesis
      using assms
      by (subst p_eq) (simp add: genres normalizedValue_genres stores_empty_list_def inc)
  qed
qed

lemma loop_empty_rows:
  assumes "row \<in> set (preferences (snd (set_preferences_loop userId prefs s)))"
      and "list_valued_key (p_key row)" and "p_value row = JArray []"
  shows "(row \<in> set (preferences s)
            \<and> \<not> (p_user_id row = userId \<and> p_key row \<in> set (map sp_key prefs)))
         \<or> loop_leaves_empty_list userId prefs s"
  using assms
proof (induction prefs arbitrary: s)
  case Nil
  then show ?case by simp
next
  case (Cons pref rest)
  let ?s1 = "upsert_preference userId (sp_key pref) (normalizedValue userId pref s) s"
  from Cons.prems(1)
  have "row \<in> set (preferences (snd (set_preferences_loop userId rest ?s1)))"
    by simp
  from Cons.IH[OF this Cons.prems(2,3)]
  consider (kept) "row \<in> set (preferences ?s1)"
                  "\<not> (p_user_id row = userId \<and> p_key row \<in> set (map sp_key rest))"
    | (left) "loop_leaves_empty_list userId rest ?s1"
    by blast
  then show ?case
  proof cases
    case left
    then show ?thesis by simp
  next
    case kept
    show ?thesis
    proof (cases "row = \<lparr> p_user_id = userId, p_key = sp_key pref,
                           p_value = normalizedValue userId pref s \<rparr>")
      case True
      have "normalizedValue userId pref s = JArray []"
        using Cons.prems(3) by (simp add: True)
      moreover have "list_valued_key (sp_key pref)"
        using Cons.prems(2) by (simp add: True)
      ultimately have "stores_empty_list userId pref s"
        by (simp add: normalizedValue_empty_iff)
      moreover have "sp_key pref \<notin> set (map sp_key rest)"
        using kept(2) by (simp add: True)
      ultimately show ?thesis by simp
    next
      case False
      with kept(1)
      have "row \<in> set (preferences s)"
        and "\<not> (p_user_id row = userId \<and> p_key row = sp_key pref)"
        by (auto simp: upsert_preference_def)
      with kept(2) show ?thesis by auto
    qed
  qed
qed

lemma loop_leaves_row:
  assumes "loop_leaves_empty_list userId prefs s"
  shows "\<exists>k. list_valued_key k
           \<and> select_preference userId k (snd (set_preferences_loop userId prefs s)) =
               [\<lparr> p_user_id = userId, p_key = k, p_value = JArray [] \<rparr>]"
  using assms
proof (induction prefs arbitrary: s)
  case Nil
  then show ?case by simp
next
  case (Cons pref rest)
  let ?s1 = "upsert_preference userId (sp_key pref) (normalizedValue userId pref s) s"
  show ?case
  proof (cases "stores_empty_list userId pref s \<and> sp_key pref \<notin> set (map sp_key rest)")
    case True
    then have key: "list_valued_key (sp_key pref)"
      by (simp add: stores_empty_list_def)
    with True have "normalizedValue userId pref s = JArray []"
      by (simp add: normalizedValue_empty_iff)
    moreover have "select_preference userId (sp_key pref)
                     (snd (set_preferences_loop userId rest ?s1)) =
                   select_preference userId (sp_key pref) ?s1"
      using True by (intro set_preferences_loop_other_keys) simp
    ultimately have "select_preference userId (sp_key pref)
                       (snd (set_preferences_loop userId (pref # rest) s)) =
                     [\<lparr> p_user_id = userId, p_key = sp_key pref, p_value = JArray [] \<rparr>]"
      by simp
    with key show ?thesis by blast
  next
    case False
    with Cons.prems have "loop_leaves_empty_list userId rest ?s1"
      by auto
    from Cons.IH[OF this] show ?thesis by simp
  qed
qed

lemma select_preference_row:
  assumes "select_preference userId k s = [row]"
  shows "row \<in> set (preferences s)"
proof -
  have "row \<in> set (filter (\<lambda>r. p_user_id r = userId \<and> p_key r = k) (preferences s))"
    using assms by (simp add: select_preference_def)
  then show ?thesis by simp
qed

lemma empty_list_row:
  assumes "select_preference userId k s = [\<lparr> p_user_id = userId, p_key = k, p_value = JArray [] \<rparr>]"
      and "list_valued_key k"
  shows "\<not> no_empty_list s"
proof
  assume "no_empty_list s"
  moreover have "\<lparr> p_user_id = userId, p_key = k, p_value = JArray [] \<rparr> \<in> set (preferences s)"
    using assms(1) by (rule select_preference_row)
  ultimately
  have "list_valued_key (p_key \<lparr> p_user_id = userId, p_key = k, p_value = JArray [] \<rparr>) \<longrightarrow>
          p_value \<lparr> p_user_id = userId, p_key = k, p_value = JArray [] \<rparr> \<noteq> JArray []"
    unfolding no_empty_list_def by (rule bspec)
  with assms(2) show False by simp
qed

lemma loop_no_empty_list_iff:
  assumes "no_empty_list s"
  shows "no_empty_list (snd (set_preferences_loop userId prefs s)) =
           (\<not> loop_leaves_empty_list userId prefs s)"
proof
  assume kept: "no_empty_list (snd (set_preferences_loop userId prefs s))"
  show "\<not> loop_leaves_empty_list userId prefs s"
  proof
    assume "loop_leaves_empty_list userId prefs s"
    from loop_leaves_row[OF this]
    obtain k where "list_valued_key k"
      and "select_preference userId k (snd (set_preferences_loop userId prefs s)) =
             [\<lparr> p_user_id = userId, p_key = k, p_value = JArray [] \<rparr>]"
      by blast
    from empty_list_row[OF this(2,1)] kept
    show False by simp
  qed
next
  assume safe: "\<not> loop_leaves_empty_list userId prefs s"
  show "no_empty_list (snd (set_preferences_loop userId prefs s))"
    unfolding no_empty_list_def
  proof (intro ballI impI)
    fix row
    assume row: "row \<in> set (preferences (snd (set_preferences_loop userId prefs s)))"
      and key: "list_valued_key (p_key row)"
    show "p_value row \<noteq> JArray []"
    proof
      assume "p_value row = JArray []"
      from loop_empty_rows[OF row key this] safe
      have "row \<in> set (preferences s)" by blast
      with assms key \<open>p_value row = JArray []\<close> show False
        by (auto simp: no_empty_list_def)
    qed
  qed
qed

lemma upsert_no_empty_list:
  assumes "no_empty_list s" and "list_valued_key k \<longrightarrow> v \<noteq> JArray []"
  shows "no_empty_list (upsert_preference userId k v s)"
  using assms by (auto simp: no_empty_list_def upsert_preference_def)

lemma remove_item_callback_no_empty_list:
  assumes "no_empty_list s"
  shows "no_empty_list (snd (transaction (remove_item_callback input userId) s))"
proof -
  have del: "no_empty_list (delete_preference userId k s)" for k
    using assms by (auto simp: no_empty_list_def delete_preference_def)
  have upd: "no_empty_list (update_preference userId k (JArray ys) s)" if "ys \<noteq> []" for k ys
    using assms that by (auto simp: update_preference_def intro: upsert_no_empty_list)
  have seq: "no_empty_list (s\<lparr> movies_id_seq := n \<rparr>)" for n
    using assms by (simp add: no_empty_list_def)
  show ?thesis
    using assms del upd seq
    by (auto simp: transaction_def remove_item_callback_def Let_def
             split: prod.splits sum.splits list.splits if_splits)
qed

lemma store_setPreferences:
  "store (snd (setPreferences env input userId sys)) =
     (if SetPreferencesSchema input \<and> userId \<noteq> 0
      then snd (set_preferences_loop userId (sp_preferences input) (store sys))
      else store sys)"
proof (cases "SetPreferencesSchema input \<and> userId \<noteq> 0")
  case True
  then show ?thesis
    using setPreferences_run[of input userId env sys] by auto
next
  case False
  then show ?thesis
    by (auto simp: setPreferences_def withToolHandler_def handleSetPreferences_def)
qed

lemma store_removePreferenceItem:
  "store (snd (removePreferenceItem env input userId sys)) =
     (if RemovePreferenceItemSchema input \<and> userId \<noteq> 0
      then snd (transaction (remove_item_callback input userId) (store sys))
      else store sys)"
proof (cases "RemovePreferenceItemSchema input \<and> userId \<noteq> 0")
  case False
  then show ?thesis
    by (auto simp: removePreferenceItem_def withToolHandler_def handleRemovePreferenceItem_def)
next
  case True
  obtain res d where tx: "transaction (remove_item_callback input userId) (store sys) = (res, d)"
    by (cases "transaction (remove_item_callback input userId) (store sys)")
  show ?thesis
  proof (cases res)
    case (Inl e)
    with True tx show ?thesis
      by (simp add: removePreferenceItem_def withToolHandler_def handleRemovePreferenceItem_def)
  next
    case (Inr msg)
    obtain answer sys2 where
      got: "getPreferences env userId (deleteCached (cacheKey userId) (sys\<lparr> store := d \<rparr>))
              = (answer, sys2)"
      by (cases "getPreferences env userId (deleteCached (cacheKey userId) (sys\<lparr> store := d \<rparr>))")
    have "store sys2 = d"
      using store_getPreferences[of env userId "deleteCached (cacheKey userId) (sys\<lparr> store := d \<rparr>)"]
      by (simp add: got)
    with True tx Inr got show ?thesis
      by (simp add: removePreferenceItem_def withToolHandler_def handleRemovePreferenceItem_def)
  qed
qed

lemma preference_step_no_empty_list:
  assumes "no_empty_list (store sys)"
  shows "no_empty_list (store (preference_step env operation sys)) =
           (\<not> call_leaves_empty_list operation sys)"
proof (cases operation)
  case (SetPreferences userId input)
  then show ?thesis
    using assms loop_no_empty_list_iff[OF assms, of userId "sp_preferences input"]
    by (auto simp: store_setPreferences)
next
  case (RemovePreferenceItem userId input)
  then show ?thesis
    using assms remove_item_callback_no_empty_list[of "store sys" input userId]
    by (simp add: store_removePreferenceItem)
next
  case (GetPreferences userId)
  then show ?thesis using assms by simp
qed

lemma always_no_empty_list_iff:
  "always_no_empty_list env operations sys =
     (no_empty_list (store sys) \<and> \<not> run_leaves_empty_list env operations sys)"
proof (induction operations arbitrary: sys)
  case Nil
  then show ?case by simp
next
  case (Cons operation rest)
  show ?case
    using Cons.IH[of "preference_step env operation sys"]
          preference_step_no_empty_list[of sys env operation]
    by auto
qed

lemma always_no_empty_list_final:
  "always_no_empty_list env operations sys \<Longrightarrow>
     no_empty_list (store (preference_run env operations sys))"
  by (induction operations arbitrary: sys) auto

lemma removePreferenceItem_ToolResult:
  assumes "removePreferenceItem env input userId sys = (ToolResult r, sys')"
  shows "\<exists>row rest updated.
           select_preference userId (rp_key input) (store sys) = row # rest
           \<and> isArray (p_value row)
           \<and> filter_item (rp_item input) (elements (p_value row)) = Inr updated
           \<and> select_preference userId (rp_key input) (store sys') =
               (if updated = [] then []
                else [\<lparr> p_user_id = userId, p_key = rp_key input, p_value = JArray updated \<rparr>])"
proof -
  have schema: "RemovePreferenceItemSchema input"
    using assms by (auto simp: removePreferenceItem_def withToolHandler_def split: if_splits)
  have user: "userId \<noteq> 0"
    using assms schema
    by (auto simp: removePreferenceItem_def withToolHandler_def handleRemovePreferenceItem_def
             split: if_splits)
  obtain res d where tx: "transaction (remove_item_callback input userId) (store sys) = (res, d)"
    by (cases "transaction (remove_item_callback input userId) (store sys)")
  obtain msg where res: "res = Inr msg"
    using assms schema user tx
    by (cases res)
       (auto simp: removePreferenceItem_def withToolHandler_def handleRemovePreferenceItem_def
             split: prod.splits)
  have st: "store sys' = d"
    using store_removePreferenceItem[of env input userId sys] assms schema user tx by simp
  have cb: "remove_item_callback input userId (store sys) = (Inr msg, d)"
    using tx unfolding res by (rule transaction_committed)
  obtain row rest where rows: "select_preference userId (rp_key input) (store sys) = row # rest"
    using cb by (cases "select_preference userId (rp_key input) (store sys)")
                (auto simp: remove_item_callback_def)
  have array: "isArray (p_value row)"
    using cb rows by (auto simp: remove_item_callback_def Let_def split: if_splits)
  obtain updated where
    filtered: "filter_item (rp_item input) (elements (p_value row)) = Inr updated"
    using cb rows array
    by (cases "filter_item (rp_item input) (elements (p_value row))")
       (auto simp: remove_item_callback_def Let_def)
  have "select_preference userId (rp_key input) d =
          (if updated = [] then []
           else [\<lparr> p_user_id = userId, p_key = rp_key input, p_value = JArray updated \<rparr>])"
    using cb rows array filtered
    by (auto simp: remove_item_callback_def Let_def select_preference_update split: if_splits)
  with rows array filtered show ?thesis
    unfolding st by blast
qed

text \<open>
  C7, amended. From a state in which no row of a list-valued key holds the empty list (the
  empty store is one), that stays so before, between and after the operations of a
  sequence of \<open>setPreferences\<close>, \<open>removePreferenceItem\<close> and \<open>getPreferences\<close> calls exactly
  when no \<open>setPreferences\<close> call of the sequence is given an empty array for a list-valued
  key at a moment when the store holds no element for the key, without writing the key
  again in a later pair. Such a call stores the empty list as the value of the row. The
  value written to a list-valued key is the empty list in that case only, so an empty
  array given for a key that holds elements leaves them. A \<open>removePreferenceItem\<close> call that
  completes found an array, and leaves no row for the key when no element remains, the
  remaining elements otherwise.
\<close>

theorem no_empty_list_amended:
  "always_no_empty_list env operations sys =
     (no_empty_list (store sys) \<and> \<not> run_leaves_empty_list env operations sys)
   \<and> (always_no_empty_list env operations sys \<longrightarrow>
         no_empty_list (store (preference_run env operations sys)))
   \<and> (userId \<noteq> 0 \<and> SetPreferencesSchema input
        \<and> sp_preferences input = pre @ p # post
        \<and> sp_key p \<notin> set (map sp_key (pre @ post))
        \<and> stores_empty_list userId p (store sys) \<longrightarrow>
         (\<exists>r sys'. setPreferences env input userId sys = (ToolResult r, sys')
            \<and> select_preference userId (sp_key p) (store sys') =
                [\<lparr> p_user_id = userId, p_key = sp_key p, p_value = JArray [] \<rparr>]
            \<and> \<not> no_empty_list (store sys')))
   \<and> (list_valued_key (sp_key p) \<longrightarrow>
         (normalizedValue userId p s = JArray []) = stores_empty_list userId p s)
   \<and> (removePreferenceItem env removal userId sys = (ToolResult r2, sys2) \<longrightarrow>
         (\<exists>row rest updated.
            select_preference userId (rp_key removal) (store sys) = row # rest
            \<and> isArray (p_value row)
            \<and> filter_item (rp_item removal) (elements (p_value row)) = Inr updated
            \<and> select_preference userId (rp_key removal) (store sys2) =
                (if updated = [] then []
                 else [\<lparr> p_user_id = userId, p_key = rp_key removal,
                         p_value = JArray updated \<rparr>])))"
proof (intro conjI impI)
  show "always_no_empty_list env operations sys =
          (no_empty_list (store sys) \<and> \<not> run_leaves_empty_list env operations sys)"
    by (rule always_no_empty_list_iff)
  show "no_empty_list (store (preference_run env operations sys))"
    if "always_no_empty_list env operations sys"
    using that by (rule always_no_empty_list_final)
  show "(normalizedValue userId p s = JArray []) = stores_empty_list userId p s"
    if "list_valued_key (sp_key p)"
    using that by (rule normalizedValue_empty_iff)
  show "\<exists>row rest updated.
            select_preference userId (rp_key removal) (store sys) = row # rest
            \<and> isArray (p_value row)
            \<and> filter_item (rp_item removal) (elements (p_value row)) = Inr updated
            \<and> select_preference userId (rp_key removal) (store sys2) =
                (if updated = [] then []
                 else [\<lparr> p_user_id = userId, p_key = rp_key removal,
                         p_value = JArray updated \<rparr>])"
    if "removePreferenceItem env removal userId sys = (ToolResult r2, sys2)"
    using that by (rule removePreferenceItem_ToolResult)
next
  assume h: "userId \<noteq> 0 \<and> SetPreferencesSchema input
        \<and> sp_preferences input = pre @ p # post
        \<and> sp_key p \<notin> set (map sp_key (pre @ post))
        \<and> stores_empty_list userId p (store sys)"
  then have key: "list_valued_key (sp_key p)"
    by (simp add: stores_empty_list_def)
  with h have empty: "normalizedValue userId p (store sys) = JArray []"
    by (simp add: normalizedValue_empty_iff)
  from h setPreferences_key_once[of userId input pre p post env sys]
  obtain r sys' where run: "setPreferences env input userId sys = (ToolResult r, sys')"
    and stored: "select_preference userId (sp_key p) (store sys') =
                   [\<lparr> p_user_id = userId, p_key = sp_key p, p_value = JArray [] \<rparr>]"
    unfolding empty by blast
  have "\<not> no_empty_list (store sys')"
    using stored key by (rule empty_list_row)
  with run stored
  show "\<exists>r sys'. setPreferences env input userId sys = (ToolResult r, sys')
            \<and> select_preference userId (sp_key p) (store sys') =
                [\<lparr> p_user_id = userId, p_key = sp_key p, p_value = JArray [] \<rparr>]
            \<and> \<not> no_empty_list (store sys')"
    by blast
qed

text \<open>
  The example of C7. One genre is written, an empty array is given for the key that now
  holds it, the preferences are read and the genre is removed: no row ever holds the empty
  list, the row keeps its one element after the empty array and is deleted at the end. An
  empty array given for \<open>favorite_genres\<close> while there is no row stores the empty list.
  Removing one of two genres leaves the other.
\<close>

theorem no_empty_list_amended_witness:
  "no_empty_list (store initial_system)
   \<and> \<not> run_leaves_empty_list example_env add_then_remove_genre initial_system
   \<and> always_no_empty_list example_env add_then_remove_genre initial_system
   \<and> no_empty_list (store (preference_run example_env add_then_remove_genre initial_system))
   \<and> select_preference 1 ''favorite_genres''
        (store (preference_run example_env (take 2 add_then_remove_genre) initial_system))
       = [\<lparr> p_user_id = 1, p_key = ''favorite_genres'', p_value = JArray [JString ''Action''] \<rparr>]
   \<and> select_preference 1 ''favorite_genres''
        (store (preference_run example_env add_then_remove_genre initial_system)) = []
   \<and> stores_empty_list 1 \<lparr> sp_key = ''favorite_genres'', sp_value = JArray [] \<rparr>
        (store initial_system)
   \<and> (\<exists>r sys'.
         setPreferences example_env (single_preference ''favorite_genres'' (JArray [])) 1
           initial_system = (ToolResult r, sys')
         \<and> select_preference 1 ''favorite_genres'' (store sys') =
             [\<lparr> p_user_id = 1, p_key = ''favorite_genres'', p_value = JArray [] \<rparr>]
         \<and> \<not> no_empty_list (store sys'))
   \<and> \<not> stores_empty_list 1 \<lparr> sp_key = ''favorite_genres'', sp_value = JArray [] \<rparr>
          (store genres_after_first)
   \<and> normalizedValue 1 \<lparr> sp_key = ''favorite_genres'', sp_value = JArray [] \<rparr>
        (store genres_after_first) \<noteq> JArray []
   \<and> (\<exists>r2 sys2.
         removePreferenceItem example_env remove_action 1 genres_after_first = (ToolResult r2, sys2)
         \<and> select_preference 1 ''favorite_genres'' (store sys2) =
             [\<lparr> p_user_id = 1, p_key = ''favorite_genres'',
                p_value = JArray [JString ''Comedy''] \<rparr>])"
proof -
  let ?p = "\<lparr> sp_key = ''favorite_genres'', sp_value = JArray [] \<rparr>"
  let ?input = "single_preference ''favorite_genres'' (JArray [])"
  have start: "no_empty_list (store initial_system)"
    by (simp add: no_empty_list_def initial_system_def empty_db_def)
  have safe: "\<not> run_leaves_empty_list example_env add_then_remove_genre initial_system"
    by code_simp
  have kept: "select_preference 1 ''favorite_genres''
        (store (preference_run example_env (take 2 add_then_remove_genre) initial_system))
       = [\<lparr> p_user_id = 1, p_key = ''favorite_genres'', p_value = JArray [JString ''Action''] \<rparr>]"
    by code_simp
  have deleted: "select_preference 1 ''favorite_genres''
        (store (preference_run example_env add_then_remove_genre initial_system)) = []"
    by code_simp
  have absent: "stores_empty_list 1 ?p (store initial_system)"
    by code_simp
  have present: "\<not> stores_empty_list 1 ?p (store genres_after_first)"
    by code_simp
  have user: "(1::int) \<noteq> 0" by simp
  have valid: "SetPreferencesSchema ?input"
    by (simp add: SetPreferencesSchema_def single_preference_def)
  have split: "sp_preferences ?input = [] @ ?p # []"
    by (simp add: single_preference_def)
  have once: "sp_key ?p \<notin> set (map sp_key ([] @ []))"
    by simp
  have key: "list_valued_key (sp_key ?p)"
    by (simp add: list_valued_key_def)
  have answered: "\<not> isError (fst (removePreferenceItem example_env remove_action 1 genres_after_first))"
    by code_simp
  then obtain r2 sys2 where
    removal: "removePreferenceItem example_env remove_action 1 genres_after_first = (ToolResult r2, sys2)"
    by (cases "removePreferenceItem example_env remove_action 1 genres_after_first";
        cases "fst (removePreferenceItem example_env remove_action 1 genres_after_first)") auto
  note first = no_empty_list_amended
    [where env = example_env and operations = add_then_remove_genre and sys = initial_system
       and userId = 1 and input = ?input and pre = "[]" and p = ?p and post = "[]"
       and s = "store genres_after_first"]
  note second = no_empty_list_amended
    [where env = example_env and sys = genres_after_first and userId = 1
       and removal = remove_action and ?r2.0 = r2 and ?sys2.0 = sys2]
  from first[THEN conjunct1] start safe
  have always: "always_no_empty_list example_env add_then_remove_genre initial_system"
    by simp
  from first[THEN conjunct2, THEN conjunct1] always
  have final: "no_empty_list (store (preference_run example_env add_then_remove_genre initial_system))"
    by simp
  from first[THEN conjunct2, THEN conjunct2, THEN conjunct1] user valid split once absent
  have written: "\<exists>r sys'.
         setPreferences example_env ?input 1 initial_system = (ToolResult r, sys')
         \<and> select_preference 1 ''favorite_genres'' (store sys') =
             [\<lparr> p_user_id = 1, p_key = ''favorite_genres'', p_value = JArray [] \<rparr>]
         \<and> \<not> no_empty_list (store sys')"
    by simp
  from first[THEN conjunct2, THEN conjunct2, THEN conjunct2, THEN conjunct1] key present
  have nonempty: "normalizedValue 1 ?p (store genres_after_first) \<noteq> JArray []"
    by simp
  from second[THEN conjunct2, THEN conjunct2, THEN conjunct2, THEN conjunct2] removal
  obtain row rest updated where
    rows: "select_preference 1 (rp_key remove_action) (store genres_after_first) = row # rest"
    and filtered: "filter_item (rp_item remove_action) (elements (p_value row)) = Inr updated"
    and after: "select_preference 1 (rp_key remove_action) (store sys2) =
                  (if updated = [] then []
                   else [\<lparr> p_user_id = 1, p_key = rp_key remove_action, p_value = JArray updated \<rparr>])"
    by blast
  have stored: "select_preference 1 (rp_key remove_action) (store genres_after_first) =
                  [\<lparr> p_user_id = 1, p_key = ''favorite_genres'',
                     p_value = JArray [JString ''Action'', JString ''Comedy''] \<rparr>]"
    by code_simp
  have one_left: "filter_item (rp_item remove_action)
                    (elements (JArray [JString ''Action'', JString ''Comedy''])) =
                  Inr [JString ''Comedy'']"
    by code_simp
  from rows stored have "p_value row = JArray [JString ''Action'', JString ''Comedy'']"
    by auto
  with filtered one_left have "updated = [JString ''Comedy'']"
    by simp
  with after have left: "select_preference 1 ''favorite_genres'' (store sys2) =
             [\<lparr> p_user_id = 1, p_key = ''favorite_genres'',
                p_value = JArray [JString ''Comedy''] \<rparr>]"
    by (simp add: remove_action_def)
  from removal left
  have removed: "\<exists>r2 sys2.
         removePreferenceItem example_env remove_action 1 genres_after_first = (ToolResult r2, sys2)
         \<and> select_preference 1 ''favorite_genres'' (store sys2) =
             [\<lparr> p_user_id = 1, p_key = ''favorite_genres'',
                p_value = JArray [JString ''Comedy''] \<rparr>]"
    by blast
  from start safe always final kept deleted absent written present nonempty removed
  show ?thesis
    by (intro conjI)
qed

end
